theory Spec2Isabelle
  imports Main "HOL-Library.Monad_Syntax"
begin

section \<open>JavaScript values\<close>

text \<open>
  The course viewer works on parsed JSON: the action parameters, the webhook payload and
  the JSON:API document of the learning-manager API. A value is one of JavaScript's
  primitives, an array or an object; an object is an association list in which the first
  binding of a key is the one a property read sees. Numbers are the integer-valued ones
  (seconds, counts, milliseconds); strings are lists of 8-bit characters, which is exact
  for ASCII text.
\<close>

datatype jsval =
    JUndefined
  | JNull
  | JBool bool
  | JNum int
  | JStr string
  | JArr "jsval list"
  | JObj "(string \<times> jsval) list"

text \<open>\<open>!!v\<close>: the values that JavaScript treats as false are \<open>undefined\<close>, \<open>null\<close>,
  \<open>false\<close>, \<open>0\<close> and the empty string.\<close>

fun truthy :: "jsval \<Rightarrow> bool" where
  "truthy JUndefined = False"
| "truthy JNull = False"
| "truthy (JBool b) = b"
| "truthy (JNum n) = (n \<noteq> 0)"
| "truthy (JStr s) = (s \<noteq> [])"
| "truthy (JArr xs) = True"
| "truthy (JObj kvs) = True"

text \<open>\<open>a === b\<close>: primitives compare by value; two arrays or objects met at different
  places of a parsed JSON tree are different references, so they are never equal.\<close>

fun strict_eq :: "jsval \<Rightarrow> jsval \<Rightarrow> bool" where
  "strict_eq JUndefined JUndefined = True"
| "strict_eq JNull JNull = True"
| "strict_eq (JBool a) (JBool b) = (a = b)"
| "strict_eq (JNum a) (JNum b) = (a = b)"
| "strict_eq (JStr a) (JStr b) = (a = b)"
| "strict_eq a b = False"

definition is_digit :: "char \<Rightarrow> bool" where
  "is_digit c = (c \<in> set ''0123456789'')"

definition digit_val :: "char \<Rightarrow> nat" where
  "digit_val c = of_char c - 48"

definition nat_of_digits :: "string \<Rightarrow> nat" where
  "nat_of_digits s = foldl (\<lambda>acc c. 10 * acc + digit_val c) 0 s"

text \<open>A property key is an array index when it is the canonical decimal spelling of a
  natural number: \<open>"0"\<close>, \<open>"7"\<close>, \<open>"12"\<close>, but not \<open>"01"\<close> or \<open>""\<close>.\<close>

definition array_index :: "string \<Rightarrow> nat option" where
  "array_index k =
     (if k \<noteq> [] \<and> list_all is_digit k \<and> (length k = 1 \<or> hd k \<noteq> CHR ''0'')
      then Some (nat_of_digits k) else None)"

text \<open>\<open>v[k]\<close> for a value that is neither \<open>undefined\<close> nor \<open>null\<close>: the data properties
  of JSON values, that is the own properties of an object, and the elements and \<open>length\<close>
  of an array or a string. Methods inherited from the prototypes are not data of the
  document and are not read through this function.\<close>

fun prop_of :: "jsval \<Rightarrow> string \<Rightarrow> jsval" where
  "prop_of (JObj kvs) k = (case map_of kvs k of Some v \<Rightarrow> v | None \<Rightarrow> JUndefined)"
| "prop_of (JArr xs) k =
     (if k = ''length'' then JNum (int (length xs))
      else case array_index k of
             Some i \<Rightarrow> if i < length xs then xs ! i else JUndefined
           | None \<Rightarrow> JUndefined)"
| "prop_of (JStr s) k =
     (if k = ''length'' then JNum (int (length s))
      else case array_index k of
             Some i \<Rightarrow> if i < length s then JStr [s ! i] else JUndefined
           | None \<Rightarrow> JUndefined)"
| "prop_of v k = JUndefined"

text \<open>\<open>v.k\<close> as an expression: reading a property of \<open>undefined\<close> or \<open>null\<close> throws a
  TypeError, which is the result \<open>None\<close>.\<close>

definition nullish :: "jsval \<Rightarrow> bool" where
  "nullish v = (v = JUndefined \<or> v = JNull)"

definition getprop :: "jsval \<Rightarrow> string \<Rightarrow> jsval option" where
  "getprop v k = (if nullish v then None else Some (prop_of v k))"

text \<open>\<open>v?.k\<close>\<close>

definition optprop :: "jsval \<Rightarrow> string \<Rightarrow> jsval" where
  "optprop v k = (if nullish v then JUndefined else prop_of v k)"

text \<open>\<open>s.split(c)\<close> for a one-character separator: always at least one piece.\<close>

fun split_on :: "char \<Rightarrow> string \<Rightarrow> string list" where
  "split_on c [] = [[]]"
| "split_on c (x # xs) =
     (if x = c then [] # split_on c xs
      else case split_on c xs of
             w # ws \<Rightarrow> (x # w) # ws
           | [] \<Rightarrow> [[x]])"

subsection \<open>Numbers as text\<close>

fun show_nat :: "nat \<Rightarrow> string" where
  "show_nat n =
     (if n < 10 then [''0123456789'' ! n]
      else show_nat (n div 10) @ [''0123456789'' ! (n mod 10)])"

declare show_nat.simps [simp del]

definition show_int :: "int \<Rightarrow> string" where
  "show_int i = (if i < 0 then CHR ''-'' # show_nat (nat (- i)) else show_nat (nat i))"

fun join_str :: "string \<Rightarrow> string list \<Rightarrow> string" where
  "join_str sep [] = []"
| "join_str sep [x] = x"
| "join_str sep (x # y # ys) = x @ sep @ join_str sep (y # ys)"

text \<open>\<open>String(v)\<close>, the conversion a template literal \<open>${v}\<close> and \<open>Array.prototype.join\<close>
  apply. \<open>join\<close> renders \<open>undefined\<close> and \<open>null\<close> elements as the empty string.\<close>

fun ToString :: "jsval \<Rightarrow> string"
  and join_elem :: "jsval \<Rightarrow> string" where
  "ToString JUndefined = ''undefined''"
| "ToString JNull = ''null''"
| "ToString (JBool b) = (if b then ''true'' else ''false'')"
| "ToString (JNum n) = show_int n"
| "ToString (JStr s) = s"
| "ToString (JArr xs) = join_str '','' (map join_elem xs)"
| "ToString (JObj kvs) = ''[object Object]''"
| "join_elem JUndefined = []"
| "join_elem JNull = []"
| "join_elem (JBool b) = ToString (JBool b)"
| "join_elem (JNum n) = ToString (JNum n)"
| "join_elem (JStr s) = ToString (JStr s)"
| "join_elem (JArr xs) = ToString (JArr xs)"
| "join_elem (JObj kvs) = ToString (JObj kvs)"

section \<open>safeGet\<close>

text \<open>
  \<^verbatim>\<open>path.split('.').reduce((current, key) =>
     current && current[key] !== undefined ? current[key] : defaultValue, obj)\<close>
  with the parameter default \<open>defaultValue = ''\<close>, which also replaces an explicit
  \<open>undefined\<close>. The same text stands in the helpers module and in the action.
\<close>

definition safeGet_step :: "jsval \<Rightarrow> jsval \<Rightarrow> string \<Rightarrow> jsval" where
  "safeGet_step defaultValue current key =
     (if truthy current \<and> prop_of current key \<noteq> JUndefined
      then prop_of current key else defaultValue)"

definition safeGet :: "jsval \<Rightarrow> string \<Rightarrow> jsval \<Rightarrow> jsval" where
  "safeGet obj path dv =
     (let defaultValue = (if dv = JUndefined then JStr [] else dv)
      in foldl (safeGet_step defaultValue) obj (split_on CHR ''.'' path))"


section \<open>The platform\<close>

text \<open>
  Functions of the JavaScript engine that the code calls and that are no part of the
  repository are parameters of the model: the conversion of a string to a number (the
  result \<open>None\<close> is \<open>NaN\<close>), \<open>parseInt\<close>, \<open>JSON.parse\<close> (the result \<open>None\<close> is a
  SyntaxError) and \<open>JSON.stringify\<close>.
\<close>

record platform =
  StringToNumber :: "string \<Rightarrow> int option"
  parseInt :: "string \<Rightarrow> int option"
  JSON_parse :: "string \<Rightarrow> jsval option"
  JSON_stringify :: "jsval \<Rightarrow> string"

text \<open>\<open>Number(v)\<close>, the conversion the arithmetic operators and \<open>>\<close> apply to an
  operand; \<open>None\<close> is \<open>NaN\<close>.\<close>

fun ToNumber :: "platform \<Rightarrow> jsval \<Rightarrow> int option" where
  "ToNumber P JUndefined = None"
| "ToNumber P JNull = Some 0"
| "ToNumber P (JBool b) = Some (if b then 1 else 0)"
| "ToNumber P (JNum n) = Some n"
| "ToNumber P (JStr s) = StringToNumber P s"
| "ToNumber P (JArr xs) = StringToNumber P (ToString (JArr xs))"
| "ToNumber P (JObj kvs) = None"

text \<open>\<open>${n}\<close> for a number\<close>

definition num_str :: "int option \<Rightarrow> string" where
  "num_str n = (case n of None \<Rightarrow> ''NaN'' | Some i \<Rightarrow> show_int i)"

text \<open>\<open>n > 0\<close> for a number: false for \<open>NaN\<close>\<close>

definition num_pos :: "int option \<Rightarrow> bool" where
  "num_pos n = (case n of None \<Rightarrow> False | Some i \<Rightarrow> 0 < i)"

text \<open>\<open>a % b\<close> on integers: the remainder has the sign of the dividend.\<close>

definition js_rem :: "int \<Rightarrow> int \<Rightarrow> int" where
  "js_rem a b = sgn a * (\<bar>a\<bar> mod \<bar>b\<bar>)"

section \<open>formatDuration\<close>

text \<open>
  The helpers module:
  \<^verbatim>\<open>if (!seconds) return 'N/A';
  const hours = Math.floor(seconds / 3600);
  const minutes = Math.floor((seconds % 3600) / 60);
  if (hours > 0) return `${hours}h ${minutes}m`;
  return `${minutes}m`;\<close>
\<close>

definition formatDuration_helpers :: "platform \<Rightarrow> jsval \<Rightarrow> string" where
  "formatDuration_helpers P seconds =
     (if \<not> truthy seconds then ''N/A''
      else
        let hours = map_option (\<lambda>s. s div 3600) (ToNumber P seconds);
            minutes = map_option (\<lambda>s. js_rem s 3600 div 60) (ToNumber P seconds)
        in if num_pos hours then num_str hours @ ''h '' @ num_str minutes @ ''m''
           else num_str minutes @ ''m'')"

text \<open>
  The course-viewer action:
  \<^verbatim>\<open>if (!seconds || seconds === 0) return 'N/A';
  const hours = Math.floor(seconds / 3600);
  const minutes = Math.floor((seconds % 3600) / 60);
  if (hours > 0) {
    return minutes > 0 ? `${hours}h ${minutes}m` : `${hours}h`;
  } else {
    return `${minutes}m`;
  }\<close>
\<close>

definition formatDuration :: "platform \<Rightarrow> jsval \<Rightarrow> string" where
  "formatDuration P seconds =
     (if \<not> truthy seconds \<or> strict_eq seconds (JNum 0) then ''N/A''
      else
        let hours = map_option (\<lambda>s. s div 3600) (ToNumber P seconds);
            minutes = map_option (\<lambda>s. js_rem s 3600 div 60) (ToNumber P seconds)
        in if num_pos hours
           then (if num_pos minutes then num_str hours @ ''h '' @ num_str minutes @ ''m''
                 else num_str hours @ ''h'')
           else num_str minutes @ ''m'')"

section \<open>The OAuth helper (scripts/alm-auth.js)\<close>

text \<open>\<open>sessionStorage\<close> maps keys to strings; \<open>getItem\<close> of a missing key is \<open>null\<close>,
  here \<open>None\<close>.\<close>

type_synonym storage = "string \<rightharpoonup> string"

definition ACCESS_TOKEN :: string where
  "ACCESS_TOKEN = ''alm_access_token''"

definition TOKEN_EXPIRY :: string where
  "TOKEN_EXPIRY = ''alm_token_expiry''"

text \<open>\<open>!s\<close> for a value that is a string or \<open>null\<close>\<close>

definition present :: "string option \<Rightarrow> bool" where
  "present s = (case s of None \<Rightarrow> False | Some t \<Rightarrow> t \<noteq> [])"

text \<open>
  \<^verbatim>\<open>const token = sessionStorage.getItem(STORAGE_KEYS.ACCESS_TOKEN);
  const expiry = sessionStorage.getItem(STORAGE_KEYS.TOKEN_EXPIRY);
  if (!token || !expiry) { return false; }
  const expiryTime = parseInt(expiry);
  const currentTime = Date.now();
  const bufferTime = 5 * 60 * 1000;
  return currentTime < (expiryTime - bufferTime);\<close>
  The reading of the clock, \<open>Date.now()\<close> in milliseconds, is the argument \<open>now\<close>;
  \<open>parseInt\<close> of the stored text is \<open>None\<close> when it is \<open>NaN\<close>, and every comparison
  with \<open>NaN\<close> is false.
\<close>

definition isAuthenticated :: "platform \<Rightarrow> storage \<Rightarrow> int \<Rightarrow> bool" where
  "isAuthenticated P sessionStorage now =
     (let token = sessionStorage ACCESS_TOKEN;
          expiry = sessionStorage TOKEN_EXPIRY
      in if \<not> present token \<or> \<not> present expiry then False
         else
           let expiryTime = Option.bind expiry (parseInt P);
               currentTime = now;
               bufferTime = 5 * 60 * 1000
           in case expiryTime of
                None \<Rightarrow> False
              | Some e \<Rightarrow> currentTime < e - bufferTime)"

text \<open>
  \<^verbatim>\<open>if (!isAuthenticated()) { return null; }
  return sessionStorage.getItem(STORAGE_KEYS.ACCESS_TOKEN);\<close>
\<close>

definition getAccessToken :: "platform \<Rightarrow> storage \<Rightarrow> int \<Rightarrow> string option" where
  "getAccessToken P sessionStorage now =
     (if \<not> isAuthenticated P sessionStorage now then None
      else sessionStorage ACCESS_TOKEN)"


section \<open>A platform for concrete runs\<close>

text \<open>Evaluating the model on a concrete input needs a concrete platform. This one
  reads strings of decimal digits as numbers, which is what the engine does with them;
  on every other string it answers \<open>NaN\<close>, and it parses no JSON text.\<close>

definition digits_number :: "string \<Rightarrow> int option" where
  "digits_number s =
     (if s \<noteq> [] \<and> list_all is_digit s then Some (int (nat_of_digits s)) else None)"

definition digits_platform :: platform where
  "digits_platform =
     \<lparr> StringToNumber = digits_number,
       parseInt = digits_number,
       JSON_parse = (\<lambda>s. None),
       JSON_stringify = ToString \<rparr>"


section \<open>The world of one invocation\<close>

text \<open>
  What an invocation reads from outside: the clock, the random numbers and the network.
  \<open>iso_now\<close> is the text \<open>new Date().toISOString()\<close> gives; \<open>random k\<close> tells whether the
  \<open>k\<close>-th call of \<open>Math.random()\<close> returns a number above \<open>0.5\<close>; \<open>fetch k r\<close> is the
  outcome of the request \<open>r\<close> when it is the \<open>k\<close>-th request the invocation issues
  (\<open>None\<close>: the promise rejects).
\<close>

datatype http_method = GET | POST

record request =
  req_method :: http_method
  req_url :: string

record http_response =
  resp_ok :: bool
  resp_status :: int
  resp_statusText :: string
  resp_text :: "string option"
  resp_json :: "jsval option"

record world =
  iso_now :: string
  random :: "nat \<Rightarrow> bool"
  fetch :: "nat \<Rightarrow> request \<Rightarrow> http_response option"

section \<open>Array methods with callbacks that may throw\<close>

text \<open>A method such as \<open>find\<close> or \<open>forEach\<close> exists on arrays only: calling it on any
  other value is a TypeError.\<close>

definition as_array :: "jsval \<Rightarrow> jsval list option" where
  "as_array v = (case v of JArr xs \<Rightarrow> Some xs | _ \<Rightarrow> None)"

text \<open>\<open>xs.find(p)\<close>: the first element \<open>p\<close> accepts, \<open>undefined\<close> when there is none;
  elements after the first match are not looked at.\<close>

fun find_js :: "(jsval \<Rightarrow> bool option) \<Rightarrow> jsval list \<Rightarrow> jsval option" where
  "find_js p [] = Some JUndefined"
| "find_js p (x # xs) =
     (case p x of
        None \<Rightarrow> None
      | Some True \<Rightarrow> Some x
      | Some False \<Rightarrow> find_js p xs)"

text \<open>\<open>xs.filter(p)\<close>\<close>

fun filter_js :: "(jsval \<Rightarrow> bool option) \<Rightarrow> jsval list \<Rightarrow> jsval list option" where
  "filter_js p [] = Some []"
| "filter_js p (x # xs) =
     do { b \<leftarrow> p x; ys \<leftarrow> filter_js p xs; Some (if b then x # ys else ys) }"

text \<open>\<open>xs.forEach(x => { ... out.push(...) ... })\<close>: every callback contributes the
  entries it pushes.\<close>

fun collect :: "('a \<Rightarrow> 'b list option) \<Rightarrow> 'a list \<Rightarrow> 'b list option" where
  "collect f [] = Some []"
| "collect f (x # xs) = do { ys \<leftarrow> f x; zs \<leftarrow> collect f xs; Some (ys @ zs) }"

text \<open>\<open>a || b\<close>\<close>

definition js_or :: "jsval \<Rightarrow> jsval \<Rightarrow> jsval" where
  "js_or a b = (if truthy a then a else b)"

text \<open>\<open>includedData.find(item => item.id === ref.id)\<close>: both property reads happen
  inside the callback, once per element looked at.\<close>

definition find_by_id :: "jsval \<Rightarrow> jsval \<Rightarrow> jsval option" where
  "find_by_id includedData ref =
     do {
       items \<leftarrow> as_array includedData;
       find_js (\<lambda>item. do {
                  a \<leftarrow> getprop item ''id'';
                  b \<leftarrow> getprop ref ''id'';
                  Some (strict_eq a b)
                }) items
     }"

text \<open>\<open>s.toLowerCase()\<close> on ASCII letters; a value that is not a string has no such
  method.\<close>

definition lower_char :: "char \<Rightarrow> char" where
  "lower_char c =
     (let n = (of_char c :: nat) in if 65 \<le> n \<and> n \<le> 90 then char_of (n + 32) else c)"

definition toLowerCase :: "jsval \<Rightarrow> string option" where
  "toLowerCase v = (case v of JStr s \<Rightarrow> Some (map lower_char s) | _ \<Rightarrow> None)"

section \<open>The course data normalizer\<close>

record course_module =
  mod_id :: jsval
  mod_courseId :: jsval
  mod_name :: jsval
  mod_type :: jsval
  mod_contentType :: jsval
  mod_duration :: jsval
  mod_status :: string
  mod_isCompleted :: bool
  mod_statusText :: string
  mod_statusIcon :: string

record prerequisite =
  pre_id :: jsval
  pre_name :: jsval
  pre_type :: jsval

record job_aid =
  aid_id :: jsval
  aid_name :: jsval
  aid_description :: jsval

record course =
  courseId :: jsval
  instanceId :: jsval
  courseTitle :: jsval
  courseDescription :: jsval
  courseOverview :: jsval
  courseType :: jsval
  courseDuration :: jsval
  courseLevel :: jsval
  courseSkills :: jsval
  enrollmentCount :: jsval
  ratingAvg :: jsval
  ratingCount :: jsval
  imageUrl :: jsval
  loFormat :: jsval
  coreModules :: "course_module list"
  prerequisites :: "prerequisite list"
  jobAids :: "job_aid list"
  timestamp :: jsval

text \<open>
  \<^verbatim>\<open>const skills = [];
  if (courseResponse.included) {
    courseResponse.included.forEach(item => {
      if (item.type === 'skill') { skills.push(item.attributes.name); }
    });
  }
  return skills;\<close>
\<close>

definition extractSkills :: "jsval \<Rightarrow> jsval list option" where
  "extractSkills courseResponse =
     do {
       included \<leftarrow> getprop courseResponse ''included'';
       if truthy included then
         do {
           items \<leftarrow> as_array included;
           collect (\<lambda>item. do {
                      t \<leftarrow> getprop item ''type'';
                      if strict_eq t (JStr ''skill'') then
                        do {
                          attributes \<leftarrow> getprop item ''attributes'';
                          name \<leftarrow> getprop attributes ''name'';
                          Some [name]
                        }
                      else Some []
                    }) items
         }
       else Some []
     }"

text \<open>The icons of a module's status, as the bytes the source file holds between the
  quotes.\<close>

definition icon_completed :: string where
  "icon_completed =
     [CHR 0xE2, CHR 0x80, CHR 0x9A, CHR 0xC3, CHR 0xBA, CHR 0xC3, CHR 0xAC]"

definition icon_timer :: string where
  "icon_timer =
     [CHR 0xE2, CHR 0x80, CHR 0x9A, CHR 0xC3, CHR 0xA8, CHR 0xC2, CHR 0xB1,
      CHR 0xC3, CHR 0x94, CHR 0xE2, CHR 0x88, CHR 0x8F, CHR 0xC3, CHR 0xA8]"

text \<open>
  The callback of \<open>resources.forEach\<close> in extractCoreModules, for the resource that would
  be the \<open>k\<close>-th module: \<open>None\<close> inside the result when nothing is pushed.
  \<^verbatim>\<open>const resourceData = includedData.find(item => item.id === resource.id);
  if (resourceData && resourceData.attributes) {
    const resourceMetadata = resourceData.attributes.localizedMetadata
        && resourceData.attributes.localizedMetadata[0]
      ? resourceData.attributes.localizedMetadata[0]
      : { name: resourceData.attributes.name || 'Module' };
    const isCompleted = Math.random() > 0.5; // Mock completion status
    const status = isCompleted ? 'completed' : 'in-progress';
    const moduleType = resourceData.attributes.loFormat || 'Self-paced';
    let moduleDuration;
    if (moduleType.toLowerCase() === 'self-paced') {
      moduleDuration = 'Self-paced';
    } else {
      const durationSeconds = resourceData.attributes.desiredDuration ||
                              resourceData.attributes.duration || 900;
      moduleDuration = formatDuration(durationSeconds);
    }
    modules.push({ id: resource.id, courseId: courseData.id, name: resourceMetadata.name,
      type: moduleType, contentType: resourceData.attributes.contentType || 'SCORM2004',
      duration: moduleDuration, status: status, isCompleted: isCompleted,
      statusText: isCompleted ? 'Last visited' : 'In Progress',
      statusIcon: isCompleted ? ... : ... });
  }\<close>
\<close>

definition core_module ::
  "platform \<Rightarrow> world \<Rightarrow> jsval \<Rightarrow> jsval \<Rightarrow> nat \<Rightarrow> jsval \<Rightarrow> course_module option option" where
  "core_module P W courseData includedData k resource =
     do {
       resourceData \<leftarrow> find_by_id includedData resource;
       if truthy resourceData \<and> truthy (prop_of resourceData ''attributes'') then
         do {
           let attributes = prop_of resourceData ''attributes'';
           let localizedMetadata = prop_of attributes ''localizedMetadata'';
           let resourceMetadata =
                 (if truthy localizedMetadata \<and> truthy (prop_of localizedMetadata ''0'')
                  then prop_of localizedMetadata ''0''
                  else JObj [(''name'', js_or (prop_of attributes ''name'') (JStr ''Module''))]);
           let isCompleted = random W k;
           let status = (if isCompleted then ''completed'' else ''in-progress'');
           let moduleType = js_or (prop_of attributes ''loFormat'') (JStr ''Self-paced'');
           lower \<leftarrow> toLowerCase moduleType;
           let moduleDuration =
                 (if lower = ''self-paced'' then ''Self-paced''
                  else
                    let durationSeconds =
                          js_or (prop_of attributes ''desiredDuration'')
                            (js_or (prop_of attributes ''duration'') (JNum 900))
                    in formatDuration P durationSeconds);
           rid \<leftarrow> getprop resource ''id'';
           cid \<leftarrow> getprop courseData ''id'';
           Some (Some \<lparr>
             mod_id = rid,
             mod_courseId = cid,
             mod_name = prop_of resourceMetadata ''name'',
             mod_type = moduleType,
             mod_contentType = js_or (prop_of attributes ''contentType'') (JStr ''SCORM2004''),
             mod_duration = JStr moduleDuration,
             mod_status = status,
             mod_isCompleted = isCompleted,
             mod_statusText = (if isCompleted then ''Last visited'' else ''In Progress''),
             mod_statusIcon = (if isCompleted then icon_completed else icon_timer) \<rparr>)
         }
       else Some None
     }"

text \<open>\<open>resources.forEach(...)\<close>: \<open>Math.random()\<close> is called once for every module that is
  pushed, so the number of the next draw is the number of modules so far.\<close>

fun core_modules_loop ::
  "platform \<Rightarrow> world \<Rightarrow> jsval \<Rightarrow> jsval \<Rightarrow> nat \<Rightarrow> jsval list \<Rightarrow> course_module list option" where
  "core_modules_loop P W courseData includedData k [] = Some []"
| "core_modules_loop P W courseData includedData k (resource # rest) =
     do {
       m \<leftarrow> core_module P W courseData includedData k resource;
       case m of
         None \<Rightarrow> core_modules_loop P W courseData includedData k rest
       | Some module \<Rightarrow>
           do {
             ms \<leftarrow> core_modules_loop P W courseData includedData (Suc k) rest;
             Some (module # ms)
           }
     }"

text \<open>
  \<^verbatim>\<open>const courseData = courseResponse.data;
  const includedData = courseResponse.included || [];
  if (courseData.relationships && courseData.relationships.instances
      && courseData.relationships.instances.data) {
    const instanceId = courseData.relationships.instances.data[0]?.id;
    const instanceData = includedData.find(item =>
      item.id === instanceId && item.type === 'learningObjectInstance');
    if (instanceData && instanceData.relationships
        && instanceData.relationships.loResources) {
      const resources = instanceData.relationships.loResources.data;
      resources.forEach((resource, index) => { ... });
    }
  }
  return modules;\<close>
\<close>

definition extractCoreModules :: "platform \<Rightarrow> world \<Rightarrow> jsval \<Rightarrow> course_module list option" where
  "extractCoreModules P W courseResponse =
     do {
       courseData \<leftarrow> getprop courseResponse ''data'';
       included \<leftarrow> getprop courseResponse ''included'';
       let includedData = js_or included (JArr []);
       relationships \<leftarrow> getprop courseData ''relationships'';
       let instances = prop_of relationships ''instances'';
       if truthy relationships \<and> truthy instances \<and> truthy (prop_of instances ''data'') then
         do {
           let instanceId = optprop (prop_of (prop_of instances ''data'') ''0'') ''id'';
           items \<leftarrow> as_array includedData;
           instanceData \<leftarrow>
             find_js (\<lambda>item. do {
                        a \<leftarrow> getprop item ''id'';
                        Some (strict_eq a instanceId \<and>
                              strict_eq (prop_of item ''type'') (JStr ''learningObjectInstance''))
                      }) items;
           let irel = prop_of instanceData ''relationships'';
           if truthy instanceData \<and> truthy irel \<and> truthy (prop_of irel ''loResources'') then
             do {
               resources \<leftarrow> as_array (prop_of (prop_of irel ''loResources'') ''data'');
               core_modules_loop P W courseData includedData 0 resources
             }
           else Some []
         }
       else Some []
     }"

text \<open>
  \<^verbatim>\<open>if (courseData.relationships && courseData.relationships.prerequisiteLOs
      && courseData.relationships.prerequisiteLOs.data) {
    courseData.relationships.prerequisiteLOs.data.forEach(prereq => {
      const prereqData = includedData.find(item => item.id === prereq.id);
      if (prereqData && prereqData.attributes) {
        const prereqMetadata = prereqData.attributes.localizedMetadata
            && prereqData.attributes.localizedMetadata[0]
          ? prereqData.attributes.localizedMetadata[0]
          : { name: prereqData.attributes.name || 'Prerequisite Course' };
        prerequisites.push({ id: prereq.id, name: prereqMetadata.name,
          type: prereqData.attributes.loFormat || 'Self-paced' });
      }
    });
  }\<close>
\<close>

definition extractPrerequisites :: "jsval \<Rightarrow> prerequisite list option" where
  "extractPrerequisites courseResponse =
     do {
       courseData \<leftarrow> getprop courseResponse ''data'';
       included \<leftarrow> getprop courseResponse ''included'';
       let includedData = js_or included (JArr []);
       relationships \<leftarrow> getprop courseData ''relationships'';
       let prerequisiteLOs = prop_of relationships ''prerequisiteLOs'';
       if truthy relationships \<and> truthy prerequisiteLOs \<and> truthy (prop_of prerequisiteLOs ''data'')
       then
         do {
           refs \<leftarrow> as_array (prop_of prerequisiteLOs ''data'');
           collect (\<lambda>prereq. do {
                      prereqData \<leftarrow> find_by_id includedData prereq;
                      if truthy prereqData \<and> truthy (prop_of prereqData ''attributes'') then
                        do {
                          let attributes = prop_of prereqData ''attributes'';
                          let localizedMetadata = prop_of attributes ''localizedMetadata'';
                          let prereqMetadata =
                                (if truthy localizedMetadata \<and> truthy (prop_of localizedMetadata ''0'')
                                 then prop_of localizedMetadata ''0''
                                 else JObj [(''name'', js_or (prop_of attributes ''name'')
                                                         (JStr ''Prerequisite Course''))]);
                          pid \<leftarrow> getprop prereq ''id'';
                          Some [\<lparr> pre_id = pid,
                                  pre_name = prop_of prereqMetadata ''name'',
                                  pre_type = js_or (prop_of attributes ''loFormat'') (JStr ''Self-paced'') \<rparr>]
                        }
                      else Some []
                    }) refs
         }
       else Some []
     }"

text \<open>
  The callback of the filter in extractJobAids:
  \<^verbatim>\<open>const itemData = includedData.find(included => included.id === item.id);
  return itemData && itemData.attributes && itemData.attributes.loType === 'jobAid';\<close>
\<close>

definition is_job_aid :: "jsval \<Rightarrow> jsval \<Rightarrow> bool option" where
  "is_job_aid includedData item =
     do {
       itemData \<leftarrow> find_by_id includedData item;
       Some (truthy itemData \<and> truthy (prop_of itemData ''attributes'') \<and>
             strict_eq (prop_of (prop_of itemData ''attributes'') ''loType'') (JStr ''jobAid''))
     }"

text \<open>
  The callback of \<open>jobAidItems.forEach\<close>:
  \<^verbatim>\<open>const jobAidData = includedData.find(item => item.id === jobAid.id);
  if (jobAidData && jobAidData.attributes) {
    const jobAidMetadata = jobAidData.attributes.localizedMetadata
        && jobAidData.attributes.localizedMetadata[0]
      ? jobAidData.attributes.localizedMetadata[0]
      : { name: jobAidData.attributes.name || 'Job Aid', description: '' };
    jobAids.push({ id: jobAid.id, name: jobAidMetadata.name,
      description: jobAidMetadata.description || 'Job aid description' });
  }\<close>
\<close>

definition job_aid_entry :: "jsval \<Rightarrow> jsval \<Rightarrow> job_aid list option" where
  "job_aid_entry includedData jobAid =
     do {
       jobAidData \<leftarrow> find_by_id includedData jobAid;
       if truthy jobAidData \<and> truthy (prop_of jobAidData ''attributes'') then
         do {
           let attributes = prop_of jobAidData ''attributes'';
           let localizedMetadata = prop_of attributes ''localizedMetadata'';
           let jobAidMetadata =
                 (if truthy localizedMetadata \<and> truthy (prop_of localizedMetadata ''0'')
                  then prop_of localizedMetadata ''0''
                  else JObj [(''name'', js_or (prop_of attributes ''name'') (JStr ''Job Aid'')),
                             (''description'', JStr [])]);
           jid \<leftarrow> getprop jobAid ''id'';
           Some [\<lparr> aid_id = jid,
                   aid_name = prop_of jobAidMetadata ''name'',
                   aid_description =
                     js_or (prop_of jobAidMetadata ''description'') (JStr ''Job aid description'') \<rparr>]
         }
       else Some []
     }"

text \<open>
  \<^verbatim>\<open>const courseData = courseResponse.data;
  const includedData = courseResponse.included || [];
  if (courseData.relationships && courseData.relationships.supplementaryLOs
      && courseData.relationships.supplementaryLOs.data) {
    const jobAidItems = courseData.relationships.supplementaryLOs.data.filter(item => ...);
    jobAidItems.forEach(jobAid => ...);
  }
  return jobAids;\<close>
\<close>

definition extractJobAids :: "jsval \<Rightarrow> job_aid list option" where
  "extractJobAids courseResponse =
     do {
       courseData \<leftarrow> getprop courseResponse ''data'';
       included \<leftarrow> getprop courseResponse ''included'';
       let includedData = js_or included (JArr []);
       relationships \<leftarrow> getprop courseData ''relationships'';
       let supplementaryLOs = prop_of relationships ''supplementaryLOs'';
       if truthy relationships \<and> truthy supplementaryLOs \<and> truthy (prop_of supplementaryLOs ''data'')
       then
         do {
           refs \<leftarrow> as_array (prop_of supplementaryLOs ''data'');
           jobAidItems \<leftarrow> filter_js (is_job_aid includedData) refs;
           collect (job_aid_entry includedData) jobAidItems
         }
       else Some []
     }"

text \<open>
  The skill level in processCourseData:
  \<^verbatim>\<open>let courseLevel = safeGet(courseData, 'attributes.skillLevel', 'N/A');
  if (courseLevel === 'N/A' && skillArray.length > 0) {
    const firstSkill = courseResponse.included?.find(item => item.type === 'skillLevel');
    if (firstSkill) { courseLevel = firstSkill.attributes?.name || 'N/A'; }
  }\<close>
\<close>

definition skill_level :: "jsval \<Rightarrow> jsval \<Rightarrow> jsval list \<Rightarrow> jsval option" where
  "skill_level courseResponse courseData skillArray =
     (let courseLevel = safeGet courseData ''attributes.skillLevel'' (JStr ''N/A'')
      in if strict_eq courseLevel (JStr ''N/A'') \<and> 0 < length skillArray then
           do {
             included \<leftarrow> getprop courseResponse ''included'';
             firstSkill \<leftarrow>
               (if nullish included then Some JUndefined
                else do {
                  items \<leftarrow> as_array included;
                  find_js (\<lambda>item. do {
                             t \<leftarrow> getprop item ''type'';
                             Some (strict_eq t (JStr ''skillLevel''))
                           }) items
                });
             Some (if truthy firstSkill
                   then js_or (optprop (prop_of firstSkill ''attributes'') ''name'') (JStr ''N/A'')
                   else courseLevel)
           }
         else Some courseLevel)"

text \<open>
  processCourseData, in the order of the source: \<open>courseResponse.data\<close>, the type, the
  lookups through safeGet, the duration, the skills and the level, then the modules, the
  prerequisites and the job aids, and the reading of the clock for the timestamp.
\<close>

definition processCourseData ::
  "platform \<Rightarrow> world \<Rightarrow> jsval \<Rightarrow> jsval \<Rightarrow> jsval \<Rightarrow> course option" where
  "processCourseData P W courseResponse cId iId =
     do {
       courseData \<leftarrow> getprop courseResponse ''data'';
       ctype \<leftarrow> getprop courseData ''type'';
       let cType = (if strict_eq ctype (JStr ''learningProgram'')
                    then ''Learning Program'' else ''Course'');
       let cTitle = safeGet courseData ''attributes.localizedMetadata.0.name''
                      (JStr ''Untitled Course'');
       let cDescription = safeGet courseData ''attributes.localizedMetadata.0.description''
                            (JStr ''No description available'');
       let cOverview = safeGet courseData ''attributes.localizedMetadata.0.overview''
                         (JStr ''No overview available'');
       let durationSeconds = safeGet courseData ''attributes.duration'' (JNum 0);
       let cDuration = formatDuration P durationSeconds;
       skillArray \<leftarrow> extractSkills courseResponse;
       cLevel \<leftarrow> skill_level courseResponse courseData skillArray;
       modules \<leftarrow> extractCoreModules P W courseResponse;
       prereqs \<leftarrow> extractPrerequisites courseResponse;
       aids \<leftarrow> extractJobAids courseResponse;
       Some \<lparr>
         courseId = cId,
         instanceId = iId,
         courseTitle = cTitle,
         courseDescription = js_or cDescription (JStr ''No description available''),
         courseOverview = js_or cOverview (JStr ''No overview available''),
         courseType = JStr cType,
         courseDuration = JStr cDuration,
         courseLevel = cLevel,
         courseSkills =
           js_or (JStr (join_str '', '' (map join_elem skillArray))) (JStr ''No skills specified''),
         enrollmentCount = safeGet courseData ''attributes.enrollmentCount'' (JNum 0),
         ratingAvg = safeGet courseData ''attributes.rating.averageRating'' (JNum 0),
         ratingCount = safeGet courseData ''attributes.rating.ratingsCount'' (JNum 0),
         imageUrl = safeGet courseData ''attributes.imageUrl'' (JStr []),
         loFormat = safeGet courseData ''attributes.loFormat'' (JStr ''Self-paced''),
         coreModules = modules,
         prerequisites = prereqs,
         jobAids = aids,
         timestamp = JStr (iso_now W) \<rparr>
     }"


section \<open>Notions for stating the properties\<close>

text \<open>The value at a path of property names, read with optional chaining
  (\<open>v?.a?.b\<close>); a path component is missing when this is \<open>undefined\<close>.\<close>

fun path_get :: "jsval \<Rightarrow> string list \<Rightarrow> jsval" where
  "path_get v [] = v"
| "path_get v (k # ks) = path_get (optprop v k) ks"

definition missing :: "jsval \<Rightarrow> string list \<Rightarrow> bool" where
  "missing v path = (path_get v path = JUndefined)"

text \<open>Every component of a path is there, and every value on the way is one that
  JavaScript treats as true.\<close>

fun found :: "jsval \<Rightarrow> string list \<Rightarrow> bool" where
  "found v [] = True"
| "found v (k # ks) = (truthy v \<and> prop_of v k \<noteq> JUndefined \<and> found (prop_of v k) ks)"

text \<open>The primary resource of a JSON:API document and its included records.\<close>

definition course_data :: "jsval \<Rightarrow> jsval" where
  "course_data doc = prop_of doc ''data''"

definition included_items :: "jsval \<Rightarrow> jsval list" where
  "included_items doc = (case prop_of doc ''included'' of JArr xs \<Rightarrow> xs | _ \<Rightarrow> [])"


text \<open>The included record that matches an id: the first one whose \<open>id\<close> is strictly
  equal to it, \<open>undefined\<close> when there is none.\<close>

definition first_with_id :: "jsval list \<Rightarrow> jsval \<Rightarrow> jsval" where
  "first_with_id items i =
     (case List.find (\<lambda>x. strict_eq (prop_of x ''id'') i) items of
        Some x \<Rightarrow> x
      | None \<Rightarrow> JUndefined)"

subsection \<open>Job aids, as the specification describes them\<close>

text \<open>
  The supplementary learning objects are the references in
  \<open>data.relationships.supplementaryLOs.data\<close>. A reference is a job aid when its matching
  included record has \<open>attributes.loType\<close> equal to \<open>'jobAid'\<close>. Its entry carries the id of
  the reference; the name is the name of the first localized metadata when there is one,
  else \<open>attributes.name\<close>, else \<open>'Job Aid'\<close>; the description is the description of the
  first localized metadata, else \<open>'Job aid description'\<close>.
\<close>

definition has_localized :: "jsval \<Rightarrow> bool" where
  "has_localized attrs = truthy (path_get attrs [''localizedMetadata'', ''0''])"

definition job_aid_of :: "jsval \<Rightarrow> jsval \<Rightarrow> job_aid" where
  "job_aid_of ref attrs =
     \<lparr> aid_id = prop_of ref ''id'',
       aid_name =
         (if has_localized attrs then path_get attrs [''localizedMetadata'', ''0'', ''name'']
          else js_or (prop_of attrs ''name'') (JStr ''Job Aid'')),
       aid_description =
         js_or (path_get attrs [''localizedMetadata'', ''0'', ''description''])
           (JStr ''Job aid description'') \<rparr>"

definition is_job_aid_record :: "jsval \<Rightarrow> bool" where
  "is_job_aid_record rec =
     strict_eq (path_get rec [''attributes'', ''loType'']) (JStr ''jobAid'')"

definition jobAids_spec :: "jsval \<Rightarrow> job_aid list" where
  "jobAids_spec doc =
     (case path_get doc [''data'', ''relationships'', ''supplementaryLOs'', ''data''] of
        JArr refs \<Rightarrow>
          map (\<lambda>ref. job_aid_of ref
                       (prop_of (first_with_id (included_items doc) (prop_of ref ''id''))
                          ''attributes''))
            (filter (\<lambda>ref. is_job_aid_record
                               (first_with_id (included_items doc) (prop_of ref ''id'')))
               refs)
      | _ \<Rightarrow> [])"

text \<open>A document on which extractJobAids cannot meet \<open>undefined\<close> or \<open>null\<close> where it reads
  a property: the document and its \<open>data\<close> are values, and \<open>included\<close> and the list of
  supplementary references, when present, are arrays of values.\<close>

definition non_nullish_array :: "jsval \<Rightarrow> bool" where
  "non_nullish_array v = (case v of JArr xs \<Rightarrow> list_all (\<lambda>x. \<not> nullish x) xs | _ \<Rightarrow> False)"

definition well_formed_refs :: "jsval \<Rightarrow> bool" where
  "well_formed_refs doc =
     (\<not> nullish doc \<and> \<not> nullish (course_data doc) \<and>
      (truthy (prop_of doc ''included'') \<longrightarrow> non_nullish_array (prop_of doc ''included'')) \<and>
      (truthy (path_get doc [''data'', ''relationships'', ''supplementaryLOs'', ''data'']) \<longrightarrow>
         non_nullish_array
           (path_get doc [''data'', ''relationships'', ''supplementaryLOs'', ''data''])))"

subsection \<open>Documents on which the normalizer returns\<close>







subsection \<open>The part of a course record that the clock and the random numbers do not touch\<close>

definition static_module :: "course_module \<Rightarrow> course_module" where
  "static_module m =
     m\<lparr> mod_status := [], mod_isCompleted := False, mod_statusText := [], mod_statusIcon := [] \<rparr>"

definition static_part :: "course \<Rightarrow> course" where
  "static_part r = r\<lparr> coreModules := map static_module (coreModules r), timestamp := JNull \<rparr>"

text \<open>The status fields of a module as extractCoreModules sets them, all four from the one
  draw of \<open>Math.random()\<close>; and a text without a double quote, as every text of
  \<open>toISOString()\<close> is.\<close>

definition status_consistent :: "course_module \<Rightarrow> bool" where
  "status_consistent m =
     (mod_status m = (if mod_isCompleted m then ''completed'' else ''in-progress'') \<and>
      mod_statusText m = (if mod_isCompleted m then ''Last visited'' else ''In Progress'') \<and>
      mod_statusIcon m = (if mod_isCompleted m then icon_completed else icon_timer))"

definition quote_free :: "string \<Rightarrow> bool" where
  "quote_free s = (CHR 0x22 \<notin> set s)"

section \<open>Concrete inputs\<close>

text \<open>Two worlds with the same clock and no network; every draw of \<open>Math.random()\<close> is
  above \<open>0.5\<close> in the first and below in the second.\<close>

definition world_a :: world where
  "world_a = \<lparr> iso_now = ''2025-01-01T00:00:00.000Z'', random = (\<lambda>k. True), fetch = (\<lambda>k r. None) \<rparr>"
definition world_b :: world where
  "world_b = \<lparr> iso_now = ''2025-01-01T00:00:00.000Z'', random = (\<lambda>k. False), fetch = (\<lambda>k r. None) \<rparr>"
text \<open>A course with one instance that has one resource.\<close>

definition doc_one_module :: jsval where
  "doc_one_module = JObj [
     (''data'', JObj [
        (''id'', JStr ''course:1''),
        (''type'', JStr ''course''),
        (''relationships'', JObj [
           (''instances'', JObj [(''data'', JArr [JObj [(''id'', JStr ''i1'')]])])])]),
     (''included'', JArr [
        JObj [(''id'', JStr ''i1''), (''type'', JStr ''learningObjectInstance''),
              (''relationships'', JObj [
                 (''loResources'', JObj [(''data'', JArr [JObj [(''id'', JStr ''r1'')]])])])],
        JObj [(''id'', JStr ''r1''), (''attributes'', JObj [(''name'', JStr ''Intro'')])]])]"

text \<open>A course with four supplementary references: a job aid without localized metadata
  but with a name, a course, an id with no included record, and a job aid with neither.\<close>

definition doc_job_aids :: jsval where
  "doc_job_aids = JObj [
     (''data'', JObj [
        (''id'', JStr ''course:1''),
        (''type'', JStr ''course''),
        (''relationships'', JObj [
           (''supplementaryLOs'', JObj [(''data'',
              JArr [JObj [(''id'', JStr ''j1'')], JObj [(''id'', JStr ''c2'')],
                    JObj [(''id'', JStr ''zz'')], JObj [(''id'', JStr ''j3'')]])])])]),
     (''included'', JArr [
        JObj [(''id'', JStr ''j1''),
              (''attributes'', JObj [(''loType'', JStr ''jobAid''), (''name'', JStr ''Guide'')])],
        JObj [(''id'', JStr ''c2''), (''attributes'', JObj [(''loType'', JStr ''course'')])],
        JObj [(''id'', JStr ''j3''), (''attributes'', JObj [(''loType'', JStr ''jobAid'')])]])]"

text \<open>The smallest document: a primary resource with nothing in it.\<close>

definition doc_empty :: jsval where
  "doc_empty = JObj [(''data'', JObj [])]"



section \<open>The HTML assembler\<close>

text \<open>
  \<^verbatim>\<open>if (typeof text !== 'string') { return text; }
  const map = { '&': '&amp;', '<': '&lt;', '>': '&gt;', '"': '&quot;', "'": '&#039;' };
  return text.replace(/[&<>"']/g, function(m) { return map[m]; });\<close>
\<close>

definition escape_char :: "char \<Rightarrow> string" where
  "escape_char m =
     (if m = CHR ''&'' then ''&amp;''
      else if m = CHR ''<'' then ''&lt;''
      else if m = CHR ''>'' then ''&gt;''
      else if m = CHR 0x22 then ''&quot;''
      else if m = CHR 0x27 then ''&#039;''
      else [m])"

definition escapeHtml :: "jsval \<Rightarrow> jsval" where
  "escapeHtml text = (case text of JStr s \<Rightarrow> JStr (concat (map escape_char s)) | _ \<Rightarrow> text)"

text \<open>The line break of the template literals, and the icons, as the bytes of the source
  file.\<close>

definition nl :: string where
  "nl = [CHR 0x0A]"

definition icon_star :: string where
  "icon_star = [CHR 0xE2, CHR 0x80, CHR 0x9A, CHR 0xE2, CHR 0x89, CHR 0xA0, CHR 0xC3, CHR 0xAA]"

definition icon_tools :: string where
  "icon_tools =
     [CHR 0xEF, CHR 0xA3, CHR 0xBF, CHR 0xC3, CHR 0xBC, CHR 0xC3, CHR 0xAE, CHR 0xC3, CHR 0x9F]"

text \<open>
  A template literal is the concatenation of its text and of \<open>String(e)\<close> for every
  \<open>${e}\<close>; \<open>xs.map(x => `...`).join('')\<close> is the concatenation of the items.
\<close>

text \<open>The template of one prerequisite, \<open>courseData.prerequisites.map(prereq => `...`)\<close>.\<close>

definition prerequisite_item :: "prerequisite \<Rightarrow> string" where
  \<open>prerequisite_item prereq =
     nl @
     ''          <div class="prerequisite-item">'' @ nl @
     ''            <span class="prerequisite-type">Course: '' @ ToString (escapeHtml (pre_type prereq)) @ ''</span>'' @ nl @
     ''            <a href="#" class="prerequisite-link">'' @ ToString (escapeHtml (pre_name prereq)) @ ''</a>'' @ nl @
     ''          </div>'' @ nl @
     ''        ''\<close>

text \<open>\<open>courseData.prerequisites.length > 0 ? `...` : ''\<close>\<close>

definition prerequisitesHTML :: "course \<Rightarrow> string" where
  \<open>prerequisitesHTML courseData =
     (if 0 < length (prerequisites courseData) then
        nl @
        ''    <div class="course-section prerequisites-section">'' @ nl @
        ''      <h2 class="section-title">Course Prerequisites <span class="optional-label">(Optional)</span></h2>'' @ nl @
        ''      <div class="prerequisites-content">'' @ nl @
        ''        '' @ concat (map prerequisite_item (prerequisites courseData)) @ nl @
        ''      </div>'' @ nl @
        ''    </div>'' @ nl @
        ''  ''
      else [])\<close>

text \<open>The template of one module, \<open>courseData.coreModules.map(module => `...`)\<close>.\<close>

definition module_item :: "course \<Rightarrow> course_module \<Rightarrow> string" where
  \<open>module_item courseData module =
     nl @
     ''              <div class="module-item '' @ mod_status module @ ''" data-resource-id="'' @ ToString (escapeHtml (mod_id module)) @ ''" data-course-id="'' @ ToString (escapeHtml (courseId courseData)) @ ''">'' @ nl @
     ''                <div class="module-icon">'' @ icon_star @ ''</div>'' @ nl @
     ''                <div class="module-content">'' @ nl @
     ''                  <div class="module-header">'' @ nl @
     ''                    <span class="module-type">'' @ ToString (escapeHtml (mod_type module)) @ '': '' @ ToString (escapeHtml (mod_contentType module)) @ ''</span>'' @ nl @
     ''                  </div>'' @ nl @
     ''                  <div class="module-title">'' @ nl @
     ''                    <a href="#" class="module-link">'' @ ToString (escapeHtml (mod_name module)) @ ''</a>'' @ nl @
     ''                  </div>'' @ nl @
     ''                  <div class="module-meta">'' @ nl @
     ''                    <span class="module-duration">'' @ icon_timer @ '' '' @ ToString (escapeHtml (mod_duration module)) @ ''</span>'' @ nl @
     ''                    <span class="module-status">'' @ mod_statusIcon module @ '' '' @ ToString (escapeHtml (JStr (mod_statusText module))) @ ''</span>'' @ nl @
     ''                  </div>'' @ nl @
     ''                </div>'' @ nl @
     ''              </div>'' @ nl @
     ''            ''\<close>

definition modulesHTML :: "course \<Rightarrow> string" where
  \<open>modulesHTML courseData =
     nl @
     ''    <div class="course-section modules-section">'' @ nl @
     ''      <div class="section-tabs">'' @ nl @
     ''        <button class="tab-button active">Modules</button>'' @ nl @
     ''        <button class="tab-button">Notes</button>'' @ nl @
     ''      </div>'' @ nl @
     ''      <div class="modules-content">'' @ nl @
     ''        <div class="core-content-section">'' @ nl @
     ''          <h3 class="content-title">'' @ nl @
     ''            Core content '' @ nl @
     ''            <span class="duration-badge">'' @ icon_timer @ '' '' @ ToString (escapeHtml (courseDuration courseData)) @ '' (estimated)</span>'' @ nl @
     ''          </h3>'' @ nl @
     ''          <div class="modules-list">'' @ nl @
     ''            '' @ concat (map (module_item courseData) (coreModules courseData)) @ nl @
     ''          </div>'' @ nl @
     ''        </div>'' @ nl @
     ''      </div>'' @ nl @
     ''    </div>'' @ nl @
     ''  ''\<close>

text \<open>The template of one job aid, \<open>courseData.jobAids.map(jobAid => `...`)\<close>.\<close>

definition job_aid_item :: "job_aid \<Rightarrow> string" where
  \<open>job_aid_item jobAid =
     nl @
     ''          <div class="job-aid-item">'' @ nl @
     ''            <a href="#" class="job-aid-link">'' @ ToString (escapeHtml (aid_name jobAid)) @ ''</a>'' @ nl @
     ''            <p class="job-aid-description">'' @ ToString (escapeHtml (aid_description jobAid)) @ ''</p>'' @ nl @
     ''          </div>'' @ nl @
     ''        ''\<close>

text \<open>\<open>courseData.jobAids.length > 0 ? `...` : ''\<close>\<close>

definition jobAidsHTML :: "course \<Rightarrow> string" where
  \<open>jobAidsHTML courseData =
     (if 0 < length (jobAids courseData) then
        nl @
        ''    <div class="sidebar-section job-aids-section">'' @ nl @
        ''      <h3 class="sidebar-title">'' @ icon_tools @ '' Job aids</h3>'' @ nl @
        ''      <div class="job-aids-list">'' @ nl @
        ''        '' @ concat (map job_aid_item (jobAids courseData)) @ nl @
        ''      </div>'' @ nl @
        ''    </div>'' @ nl @
        ''  ''
      else [])\<close>

text \<open>
  generateCourseHTML: the head with the meta tags, then the body fragment.
  \<^verbatim>\<open>const imageUrl = courseData.imageUrl || 'https://images.unsplash.com/...';
  const coreContentCompleted = courseData.coreModules.filter(m => m.isCompleted).length;
  const totalCoreContent = courseData.coreModules.length;\<close>
\<close>

definition generateCourseHTML :: "course \<Rightarrow> string" where
  \<open>generateCourseHTML courseData =
     (let image = js_or (imageUrl courseData)
                    (JStr ''https://images.unsplash.com/photo-1516321318423-f06f85e504b3?w=1200&q=80'');
          coreContentCompleted = length (filter mod_isCompleted (coreModules courseData));
          totalCoreContent = length (coreModules courseData)
      in
        ''<head>'' @ nl @
        ''  <meta charset="utf-8">'' @ nl @
        ''  <title>'' @ ToString (escapeHtml (courseTitle courseData)) @ '' - Course Viewer</title>'' @ nl @
        ''  <meta name="description" content="'' @ ToString (escapeHtml (courseDescription courseData)) @ ''">'' @ nl @
        ''  <meta name="author" content="ALM Course Viewer">'' @ nl @
        ''  <meta name="timestamp" content="'' @ ToString (timestamp courseData) @ ''">'' @ nl @
        ''  '' @ nl @
        ''  <!-- Course Meta Tags for EDS Indexing -->'' @ nl @
        ''  <meta name="course-id" content="'' @ ToString (escapeHtml (courseId courseData)) @ ''">'' @ nl @
        ''  <meta name="course-title" content="'' @ ToString (escapeHtml (courseTitle courseData)) @ ''">'' @ nl @
        ''  <meta name="course-duration" content="'' @ ToString (escapeHtml (courseDuration courseData)) @ ''">'' @ nl @
        ''  <meta name="course-skill-level" content="'' @ ToString (escapeHtml (courseLevel courseData)) @ ''">'' @ nl @
        ''  <meta name="course-skills" content="'' @ ToString (escapeHtml (courseSkills courseData)) @ ''">'' @ nl @
        ''  <meta name="course-type" content="'' @ ToString (escapeHtml (courseType courseData)) @ ''">'' @ nl @
        ''  <meta name="course-rating" content="'' @ ToString (ratingAvg courseData) @ ''">'' @ nl @
        ''  <meta name="course-enrollment-count" content="'' @ ToString (enrollmentCount courseData) @ ''">'' @ nl @
        nl @
        ''  <!-- Open Graph Meta Tags -->'' @ nl @
        ''  <meta property="og:type" content="website">'' @ nl @
        ''  <meta property="og:title" content="'' @ ToString (escapeHtml (courseTitle courseData)) @ '' - Course Viewer">'' @ nl @
        ''  <meta property="og:description" content="'' @ ToString (escapeHtml (courseDescription courseData)) @ ''">'' @ nl @
        ''  <meta property="og:image" content="'' @ ToString (escapeHtml (image)) @ ''">'' @ nl @
        ''</head>'' @ nl @
        nl @
        ''<body>'' @ nl @
        ''  <header></header>'' @ nl @
        ''  <main>'' @ nl @
        ''    <div>'' @ nl @
        ''      <div class="course-overview">'' @ nl @
        ''        <!-- Course Header -->'' @ nl @
        ''        <div class="course-header">'' @ nl @
        ''          <div class="course-hero">'' @ nl @
        ''            <h1 class="course-title">'' @ ToString (escapeHtml (courseTitle courseData)) @ ''</h1>'' @ nl @
        ''            <div class="course-format">'' @ ToString (escapeHtml (loFormat courseData)) @ ''</div>'' @ nl @
        ''          </div>'' @ nl @
        ''        </div>'' @ nl @
        ''        '' @ nl @
        ''        <!-- Main Content -->'' @ nl @
        ''        <div class="course-main-content">'' @ nl @
        ''          <!-- Left Content -->'' @ nl @
        ''          <div class="course-left-content">'' @ nl @
        ''            '' @ prerequisitesHTML courseData @ nl @
        ''            '' @ modulesHTML courseData @ nl @
        ''          </div>'' @ nl @
        ''          '' @ nl @
        ''          <!-- Sidebar -->'' @ nl @
        ''          <div class="course-sidebar">'' @ nl @
        ''            <div class="sidebar-actions">'' @ nl @
        ''              <button class="continue-btn">Continue</button>'' @ nl @
        ''            </div>'' @ nl @
        ''            '' @ nl @
        ''            <div class="sidebar-section progress-section">'' @ nl @
        ''              <div class="progress-item">'' @ nl @
        ''                <span class="progress-count">'' @ show_nat coreContentCompleted @ ''/'' @ show_nat totalCoreContent @ ''</span>'' @ nl @
        ''                <span class="progress-label">Core content completed</span>'' @ nl @
        ''              </div>'' @ nl @
        ''            </div>'' @ nl @
        ''            '' @ nl @
        ''            '' @ jobAidsHTML courseData @ nl @
        ''          </div>'' @ nl @
        ''        </div>'' @ nl @
        ''      </div>'' @ nl @
        ''    </div>'' @ nl @
        ''  </main>'' @ nl @
        ''  <footer></footer>'' @ nl @
        ''</body>'' @ nl @
        nl @
        ''</html>'')\<close>

section \<open>The client-side reader of the meta tags (blocks/course-info)\<close>







section \<open>The course-viewer action\<close>

subsection \<open>String methods\<close>

text \<open>\<open>s.startsWith(p)\<close> and \<open>s.includes(p)\<close> on strings.\<close>

definition startsWith :: "string \<Rightarrow> string \<Rightarrow> bool" where
  "startsWith s p = (take (length p) s = p)"

fun includes_str :: "string \<Rightarrow> string \<Rightarrow> bool" where
  "includes_str [] p = (p = [])"
| "includes_str (c # s) p = (startsWith (c # s) p \<or> includes_str s p)"

text \<open>\<open>s.replace(a, b)\<close> for one-character strings: the first occurrence only.\<close>

fun replace_first :: "char \<Rightarrow> char \<Rightarrow> string \<Rightarrow> string" where
  "replace_first a b [] = []"
| "replace_first a b (c # s) = (if c = a then b # s else c # replace_first a b s)"

text \<open>The methods as properties of a value: \<open>v.split(c)\<close> and \<open>v.startsWith(p)\<close> exist
  on strings only, \<open>v.includes(x)\<close> on strings and on arrays; calling a method a value
  does not have is a TypeError.\<close>

definition split_method :: "jsval \<Rightarrow> char \<Rightarrow> string list option" where
  "split_method v c = (case v of JStr s \<Rightarrow> Some (split_on c s) | _ \<Rightarrow> None)"

definition includes_method :: "jsval \<Rightarrow> string \<Rightarrow> bool option" where
  "includes_method v x =
     (case v of
        JStr s \<Rightarrow> Some (includes_str s x)
      | JArr xs \<Rightarrow> Some (JStr x \<in> set xs)
      | _ \<Rightarrow> None)"

definition is_array :: "jsval \<Rightarrow> bool" where
  "is_array v = (case v of JArr xs \<Rightarrow> True | _ \<Rightarrow> False)"

text \<open>\<open>typeof v === 'object'\<close> for a value that is not \<open>null\<close>\<close>

definition is_object :: "jsval \<Rightarrow> bool" where
  "is_object v = (case v of JArr xs \<Rightarrow> True | JObj kvs \<Rightarrow> True | _ \<Rightarrow> False)"

subsection \<open>Responses\<close>

text \<open>
  The action answers with an object of status code, body and headers, or with the
  result of \<open>errorResponse(statusCode, message, logger)\<close>. errorResponse is imported from
  \<open>../../utils\<close>, which is not among the sources: its result is kept as the status code
  and the message it is called with.
\<close>

datatype response =
    Response (statusCode: int) (body: string) (headers: "(string \<times> string) list")
  | ErrorResponse int string

definition ALM_API_BASE :: string where
  "ALM_API_BASE = ''https://learningmanager.adobe.com/primeapi/v2''"

subsection \<open>Finding the webhook payload\<close>

text \<open>
  Format 4:
  \<^verbatim>\<open>for (const [key, value] of Object.entries(params)) {
    if (value && typeof value === 'object' && value.events && Array.isArray(value.events)) {
      webhookData = value; break;
    }
  }\<close>
\<close>

fun webhook_property :: "(string \<times> jsval) list \<Rightarrow> jsval" where
  "webhook_property [] = JNull"
| "webhook_property ((key, value) # rest) =
     (if truthy value \<and> is_object value \<and> truthy (prop_of value ''events'') \<and>
         is_array (prop_of value ''events'')
      then value else webhook_property rest)"

text \<open>
  Format 2, with its own try/catch around \<open>JSON.parse\<close> and the read of \<open>events\<close>:
  \<^verbatim>\<open>try {
    const parsedBody = JSON.parse(params.body);
    if (parsedBody.events && Array.isArray(parsedBody.events)) { webhookData = parsedBody; }
  } catch (e) { logger.warn(...) }\<close>
\<close>

definition webhook_in_body_text :: "platform \<Rightarrow> string \<Rightarrow> jsval" where
  "webhook_in_body_text P text =
     (case do {
             parsedBody \<leftarrow> JSON_parse P text;
             events \<leftarrow> getprop parsedBody ''events'';
             Some (if truthy events \<and> is_array events then parsedBody else JNull)
           } of
        None \<Rightarrow> JNull
      | Some w \<Rightarrow> w)"

text \<open>Formats 1 to 4, tried in this order; the first whose test succeeds decides.\<close>

definition webhook_formats :: "platform \<Rightarrow> (string \<times> jsval) list \<Rightarrow> jsval" where
  "webhook_formats P params =
     (let events = prop_of (JObj params) ''events'';
          body = prop_of (JObj params) ''body''
      in if truthy events \<and> is_array events \<and> num_pos (ToNumber P (prop_of events ''length''))
         then JObj params
         else case body of
                JStr text \<Rightarrow> if text \<noteq> [] then webhook_in_body_text P text
                            else webhook_property params
              | _ \<Rightarrow> if truthy body \<and> is_object body \<and> truthy (prop_of body ''events'')
                     then body
                     else webhook_property params)"

text \<open>
  Format 5, when nothing was found and \<open>params.accountId\<close> is there:
  \<^verbatim>\<open>if (params.eventId && params.eventName && params.loId) {
    reconstructedData.events.push({ eventId: params.eventId, eventName: params.eventName,
      timestamp: params.timestamp || new Date().toISOString(),
      eventInfo: params.eventInfo || '',
      data: { loId: params.loId, loType: params.loType || 'course' } });
    webhookData = reconstructedData;
  }\<close>
\<close>

definition find_webhook :: "platform \<Rightarrow> world \<Rightarrow> (string \<times> jsval) list \<Rightarrow> jsval" where
  "find_webhook P W params =
     (let p = JObj params;
          webhookData = webhook_formats P params
      in if \<not> truthy webhookData \<and> truthy (prop_of p ''accountId'') \<and>
            truthy (prop_of p ''eventId'') \<and> truthy (prop_of p ''eventName'') \<and>
            truthy (prop_of p ''loId'')
         then JObj [(''accountId'', prop_of p ''accountId''),
                    (''events'', JArr [JObj [
                       (''eventId'', prop_of p ''eventId''),
                       (''eventName'', prop_of p ''eventName''),
                       (''timestamp'', js_or (prop_of p ''timestamp'') (JStr (iso_now W))),
                       (''eventInfo'', js_or (prop_of p ''eventInfo'') (JStr [])),
                       (''data'', JObj [(''loId'', prop_of p ''loId''),
                                       (''loType'', js_or (prop_of p ''loType'') (JStr ''course''))])]])]
         else webhookData)"

subsection \<open>The course ID and the instance ID\<close>

text \<open>
  From the first event of the payload; the result is an early response or the two IDs.
  \<^verbatim>\<open>const event = webhookData.events[0];
  if (event.data && event.data.loId) {
    const loIdParts = event.data.loId.split(':');
    if (loIdParts.length === 2) {
      courseId = loIdParts[1];
      if (event.data.instanceId) { instanceId = event.data.instanceId; }
    } else { return errorResponse(400, `Invalid loId format: ${event.data.loId}`, logger); }
  } else { return errorResponse(400, 'Missing loId in event data', logger); }\<close>
\<close>

definition ids_from_webhook :: "jsval \<Rightarrow> (response + jsval \<times> jsval) option" where
  "ids_from_webhook webhookData =
     (let event = prop_of (prop_of webhookData ''events'') ''0''
      in do {
           data \<leftarrow> getprop event ''data'';
           if truthy data \<and> truthy (prop_of data ''loId'') then
             do {
               loIdParts \<leftarrow> split_method (prop_of data ''loId'') CHR '':'';
               if length loIdParts = 2 then
                 Some (Inr (JStr (loIdParts ! 1),
                            (if truthy (prop_of data ''instanceId'')
                             then prop_of data ''instanceId'' else JNull)))
               else
                 Some (Inl (ErrorResponse 400
                              (''Invalid loId format: '' @ ToString (prop_of data ''loId''))))
             }
           else Some (Inl (ErrorResponse 400 ''Missing loId in event data''))
         })"

text \<open>
  From the request path:
  \<^verbatim>\<open>let path = params.__ow_path;
  if (!path.startsWith("/")) { path = "/" + path; }
  if (!path.includes('/overview/trainingId/')) {
    return errorResponse(404, `${path} is not a course overlay path`, logger);
  }
  const pathParts = path.split('/').filter(part => part.length > 0);
  if (pathParts.length >= 3 && pathParts[0] === 'overview' && pathParts[1] === 'trainingId') {
    courseId = pathParts[2];
    if (pathParts.length >= 5 && pathParts[3] === 'trainingInstanceId') {
      instanceId = pathParts[4];
    }
  }\<close>
  A path that is not a string has no \<open>startsWith\<close>.
\<close>

definition overlay_path :: "string \<Rightarrow> string" where
  "overlay_path p = (if \<not> startsWith p ''/'' then ''/'' @ p else p)"

definition ids_from_path :: "jsval \<Rightarrow> (response + jsval \<times> jsval) option" where
  "ids_from_path ow_path =
     (case ow_path of
        JStr p \<Rightarrow>
          (let path = overlay_path p
           in if \<not> includes_str path ''/overview/trainingId/'' then
                Some (Inl (ErrorResponse 404 (path @ '' is not a course overlay path'')))
              else
                let pathParts = filter (\<lambda>part. 0 < length part) (split_on CHR ''/'' path)
                in if 3 \<le> length pathParts \<and> pathParts ! 0 = ''overview'' \<and>
                      pathParts ! 1 = ''trainingId''
                   then Some (Inr (JStr (pathParts ! 2),
                                   (if 5 \<le> length pathParts \<and>
                                       pathParts ! 3 = ''trainingInstanceId''
                                    then JStr (pathParts ! 4) else JNull)))
                   else Some (Inr (JNull, JNull)))
      | _ \<Rightarrow> None)"

text \<open>
  \<^verbatim>\<open>if (webhookData && webhookData.events && webhookData.events.length > 0) { ... }
  else if (params.__ow_path) { ... }
  else { return errorResponse(400, 'Missing webhook payload or URL path', logger); }\<close>
\<close>

definition request_ids ::
  "platform \<Rightarrow> world \<Rightarrow> (string \<times> jsval) list \<Rightarrow> (response + jsval \<times> jsval) option" where
  "request_ids P W params =
     (let webhookData = find_webhook P W params
      in if truthy webhookData \<and> truthy (prop_of webhookData ''events'') \<and>
            num_pos (ToNumber P (prop_of (prop_of webhookData ''events'') ''length''))
         then ids_from_webhook webhookData
         else if truthy (prop_of (JObj params) ''__ow_path'')
         then ids_from_path (prop_of (JObj params) ''__ow_path'')
         else Some (Inl (ErrorResponse 400 ''Missing webhook payload or URL path'')))"

subsection \<open>Requests\<close>

text \<open>A function that issues requests takes the list of the requests issued so far and
  returns it extended; the reply to a request is the world's answer at its position.\<close>

definition send :: "world \<Rightarrow> request list \<Rightarrow> request \<Rightarrow> http_response option \<times> request list" where
  "send W trace r = (fetch W (length trace) r, trace @ [r])"

definition includeParams :: string where
  "includeParams = ''instances.enrollment.loResourceGrades,enrollment.loInstance.loResources.resources,authors,supplementaryLOs.instances.loResources.resources,supplementaryResources,prerequisiteLOs.enrollment,instances.loResources.resources.room,subLOs.instances.loResources,skills.skillLevel.skill''"

definition course_url :: "string \<Rightarrow> string \<Rightarrow> string" where
  "course_url kind numericCourseId =
     ALM_API_BASE @ ''/learningObjects/'' @ kind @ '':'' @ numericCourseId @ ''?include='' @
     includeParams @ ''&useCache=true&filter.ignoreEnhancedLP=false''"

text \<open>\<open>await response.json()\<close> inside a try whose catch returns \<open>null\<close>\<close>

definition json_or_null :: "http_response \<Rightarrow> jsval" where
  "json_or_null r = (case resp_json r of None \<Rightarrow> JNull | Some v \<Rightarrow> v)"

text \<open>
  fetchCourseData: the course endpoint first, the learning-program endpoint when the
  answer is not ok; every exception ends in the catch, which returns \<open>null\<close>.
\<close>

definition fetchCourseData :: "world \<Rightarrow> request list \<Rightarrow> jsval \<Rightarrow> jsval \<times> request list" where
  "fetchCourseData W trace cId =
     (let (response, trace1) =
            send W trace \<lparr> req_method = GET, req_url = course_url ''course'' (ToString cId) \<rparr>
      in case response of
           None \<Rightarrow> (JNull, trace1)
         | Some r \<Rightarrow>
             if resp_ok r then (json_or_null r, trace1)
             else
               let (programResponse, trace2) =
                     send W trace1 \<lparr> req_method = GET,
                                     req_url = course_url ''learningProgram'' (ToString cId) \<rparr>
               in case programResponse of
                    None \<Rightarrow> (JNull, trace2)
                  | Some r2 \<Rightarrow> if resp_ok r2 then (json_or_null r2, trace2) else (JNull, trace2))"

subsection \<open>The EDS cache publisher\<close>

text \<open>
  The instance ID in the form the cache URLs use:
  \<^verbatim>\<open>let edsInstanceId = almInstanceId;
  if (almInstanceId.includes(':') && almInstanceId.includes('_')) {
    const parts = almInstanceId.split(':')[1];
    edsInstanceId = parts.replace('_', '-');
  }\<close>
\<close>

definition eds_instance_id :: "jsval \<Rightarrow> jsval option" where
  "eds_instance_id almInstanceId =
     do {
       colon \<leftarrow> includes_method almInstanceId '':'';
       underscore \<leftarrow> (if colon then includes_method almInstanceId ''_'' else Some False);
       if colon \<and> underscore then
         do {
           pieces \<leftarrow> split_method almInstanceId CHR '':'';
           Some (JStr (replace_first CHR ''_'' CHR ''-'' (pieces ! 1)))
         }
       else Some almInstanceId
     }"

text \<open>
  The callback of \<open>instances.data.forEach\<close> in fetchCourseInstances; of the entry it pushes
  only the \<open>id\<close> is used afterwards.
  \<^verbatim>\<open>const instanceData = courseData.included?.find(item =>
    item.id === instanceRef.id && item.type === 'learningObjectInstance');
  if (instanceData) { const almInstanceId = instanceData.id; ... }
  else { const almInstanceId = instanceRef.id; ... }\<close>
\<close>

definition instance_entry :: "jsval \<Rightarrow> jsval \<Rightarrow> jsval list option" where
  "instance_entry courseData instanceRef =
     do {
       included \<leftarrow> getprop courseData ''included'';
       instanceData \<leftarrow>
         (if nullish included then Some JUndefined
          else do {
            items \<leftarrow> as_array included;
            find_js (\<lambda>item. do {
                       a \<leftarrow> getprop item ''id'';
                       b \<leftarrow> getprop instanceRef ''id'';
                       Some (strict_eq a b \<and>
                             strict_eq (prop_of item ''type'') (JStr ''learningObjectInstance''))
                     }) items
          });
       almInstanceId \<leftarrow>
         (if truthy instanceData then Some (prop_of instanceData ''id'')
          else getprop instanceRef ''id'');
       edsInstanceId \<leftarrow> eds_instance_id almInstanceId;
       Some [edsInstanceId]
     }"

text \<open>
  \<^verbatim>\<open>if (courseData.data.relationships && courseData.data.relationships.instances
      && courseData.data.relationships.instances.data) {
    courseData.data.relationships.instances.data.forEach(instanceRef => { ... });
  }\<close>
\<close>

definition instances_of :: "jsval \<Rightarrow> jsval list option" where
  "instances_of courseData =
     do {
       d \<leftarrow> getprop courseData ''data'';
       relationships \<leftarrow> getprop d ''relationships'';
       let instances = prop_of relationships ''instances'';
       if truthy relationships \<and> truthy instances \<and> truthy (prop_of instances ''data'') then
         do {
           refs \<leftarrow> as_array (prop_of instances ''data'');
           collect (instance_entry courseData) refs
         }
       else Some []
     }"

definition instances_url :: "string \<Rightarrow> string \<Rightarrow> string" where
  "instances_url kind cId =
     ALM_API_BASE @ ''/learningObjects/'' @ kind @ '':'' @ cId @ ''?include=instances''"

text \<open>
  fetchCourseInstances: the course endpoint, then the learning-program endpoint when the
  answer is not ok; the instances of an ok answer; \<open>[]\<close> otherwise and on every
  exception.
\<close>

definition fetchCourseInstances ::
  "world \<Rightarrow> request list \<Rightarrow> jsval \<Rightarrow> jsval list \<times> request list" where
  "fetchCourseInstances W trace cId =
     (let (first, trace1) =
            send W trace \<lparr> req_method = GET, req_url = instances_url ''course'' (ToString cId) \<rparr>
      in case first of
           None \<Rightarrow> ([], trace1)
         | Some r1 \<Rightarrow>
             let (response, trace2) =
                   (if \<not> resp_ok r1
                    then send W trace1 \<lparr> req_method = GET,
                                         req_url = instances_url ''learningProgram'' (ToString cId) \<rparr>
                    else (Some r1, trace1))
             in case response of
                  None \<Rightarrow> ([], trace2)
                | Some r \<Rightarrow>
                    if resp_ok r then
                      (case Option.bind (resp_json r) instances_of of
                         None \<Rightarrow> ([], trace2)
                       | Some instances \<Rightarrow> (instances, trace2))
                    else ([], trace2))"

definition publish_url :: "jsval \<Rightarrow> string" where
  "publish_url cId =
     ''https://admin.hlx.page/preview/rohitnegi02/byomeds/main/overview/trainingId/'' @ ToString cId"

definition publish_instance_url :: "jsval \<Rightarrow> jsval \<Rightarrow> string" where
  "publish_instance_url cId iId = publish_url cId @ ''/trainingInstanceId/'' @ ToString iId"

text \<open>
  One POST whose answer is awaited and read:
  \<^verbatim>\<open>const response = await fetch(publishUrl, requestOptions);
  const result = await response.text();
  if (response.ok) { logger.info(...) } else { logger.warn(...) }\<close>
  The result tells whether the two awaits went through; the answer itself is only logged.
\<close>

definition post_and_log :: "world \<Rightarrow> request list \<Rightarrow> string \<Rightarrow> unit option \<times> request list" where
  "post_and_log W trace url =
     (let (response, trace1) = send W trace \<lparr> req_method = POST, req_url = url \<rparr>
      in (do { r \<leftarrow> response; result \<leftarrow> resp_text r; Some () }, trace1))"

text \<open>
  \<open>instances.map(async (instance) => { try { ... } catch (error) { ... } })\<close>: every
  callback issues its POST when it is called, in the order of the list, and catches what
  its awaits throw.
\<close>

fun post_each :: "world \<Rightarrow> request list \<Rightarrow> jsval \<Rightarrow> jsval list \<Rightarrow> request list" where
  "post_each W trace cId [] = trace"
| "post_each W trace cId (instance # rest) =
     post_each W (snd (post_and_log W trace (publish_instance_url cId instance))) cId rest"

text \<open>
  publishToEdsCache: nothing without \<open>params.EDS_AUTH_TOKEN\<close>; one POST for the given
  instance; otherwise one POST for every instance of the course, or one for the course
  when it has none. The outer catch logs and throws again, so the result tells whether the
  promise is fulfilled (\<open>Some ()\<close>) or rejected.
\<close>

definition publishToEdsCache ::
  "world \<Rightarrow> request list \<Rightarrow> jsval \<Rightarrow> jsval \<Rightarrow> (string \<times> jsval) list \<Rightarrow>
     unit option \<times> request list" where
  "publishToEdsCache W trace cId iId params =
     (if \<not> truthy (prop_of (JObj params) ''EDS_AUTH_TOKEN'') then (Some (), trace)
      else if truthy iId then post_and_log W trace (publish_instance_url cId iId)
      else
        let (instances, trace1) = fetchCourseInstances W trace cId
        in if 0 < length instances then (Some (), post_each W trace1 cId instances)
           else post_and_log W trace1 (publish_url cId))"

subsection \<open>main\<close>

definition html_headers :: "(string \<times> string) list" where
  "html_headers =
     [(''Content-Type'', ''text/html''),
      (''Cache-Control'', ''no-cache, no-store, must-revalidate''),
      (''Pragma'', ''no-cache''),
      (''Expires'', ''0'')]"

text \<open>
  The body of the \<open>try\<close> block of main. The result is the response, or \<open>None\<close> when an
  exception is thrown, together with the requests issued. The promise of
  publishToEdsCache is not awaited and its rejection is caught and logged
  (\<open>publishToEdsCache(...).catch(...)\<close>), so only its requests remain.
\<close>

definition main_try ::
  "platform \<Rightarrow> world \<Rightarrow> (string \<times> jsval) list \<Rightarrow> response option \<times> request list" where
  "main_try P W params =
     (if strict_eq (prop_of (JObj params) ''message'') (JStr ''Test Connection'') then
        (Some (Response 200
                 (JSON_stringify P (JObj [(''status'', JStr ''success''),
                    (''message'', JStr ''Webhook endpoint is working correctly''),
                    (''timestamp'', JStr (iso_now W))]))
                 [(''Content-Type'', ''application/json'')]), [])
      else
        case request_ids P W params of
          None \<Rightarrow> (None, [])
        | Some (Inl early) \<Rightarrow> (Some early, [])
        | Some (Inr (cId, iId)) \<Rightarrow>
            if \<not> truthy cId then
              (Some (ErrorResponse 400 ''Could not extract course ID from request''), [])
            else
              let (courseData, trace) = fetchCourseData W [] cId
              in if \<not> truthy courseData then (Some (ErrorResponse 404 ''Course not found''), trace)
                 else
                   case processCourseData P W courseData cId iId of
                     None \<Rightarrow> (None, trace)
                   | Some processedData \<Rightarrow>
                       let html = generateCourseHTML processedData;
                           response = Response 200 html html_headers
                       in (Some response, snd (publishToEdsCache W trace cId iId params)))"

text \<open>
  main: the \<open>try\<close> block and its catch,
  \<^verbatim>\<open>catch (error) {
    logger.error('Error in course-viewer action:', error);
    return errorResponse(500, 'server error', logger);
  }\<close>
  The action is invoked with an object of parameters, so that the one statement before
  the \<open>try\<close>, which reads \<open>params.LOG_LEVEL\<close> for the logger, does not throw. The result
  is the value the promise of main is fulfilled with, \<open>None\<close> if it were rejected, and the
  requests issued.
\<close>

definition main ::
  "platform \<Rightarrow> world \<Rightarrow> (string \<times> jsval) list \<Rightarrow> response option \<times> request list" where
  "main P W params =
     (case main_try P W params of
        (Some response, trace) \<Rightarrow> (Some response, trace)
      | (None, trace) \<Rightarrow> (Some (ErrorResponse 500 ''server error''), trace))"


section \<open>Notions for the assembler and the action\<close>

text \<open>The characters escapeHtml replaces, and texts without any of them.\<close>

definition special_chars :: "char list" where
  "special_chars = [CHR ''&'', CHR ''<'', CHR ''>'', CHR 0x22, CHR 0x27]"

definition clean :: "string \<Rightarrow> bool" where
  "clean s = list_all (\<lambda>c. c \<notin> set special_chars) s"

text \<open>The characters that delimit tags and attribute values, and the sequence of them
  in a text: the markup skeleton of a page.\<close>

definition markup_chars :: "char list" where
  "markup_chars = [CHR ''<'', CHR ''>'', CHR 0x22, CHR 0x27]"

definition markup :: "string \<Rightarrow> string" where
  "markup s = filter (\<lambda>c. c \<in> set markup_chars) s"

text \<open>Every \<open>&\<close> of a text starts one of the five character references escapeHtml
  writes.\<close>

definition entities :: "string list" where
  "entities = [''amp;'', ''lt;'', ''gt;'', ''quot;'', ''#039;'']"

fun amp_ok :: "string \<Rightarrow> bool" where
  "amp_ok [] = True"
| "amp_ok (c # s) =
     ((c = CHR ''&'' \<longrightarrow> (\<exists>e \<in> set entities. take (length e) s = e)) \<and> amp_ok s)"

text \<open>
  A course record whose fields have the types the assembler expects: every field that
  goes through escapeHtml is a primitive value (a string, a number, a boolean, \<open>null\<close> or
  \<open>undefined\<close>; escapeHtml hands on what is not a string as it is), the rating and the
  enrollment count are numbers, and the timestamp and the status and icon of a module,
  which are interpolated as they are, hold none of the five characters.
\<close>

definition primitive :: "jsval \<Rightarrow> bool" where
  "primitive v = (case v of JArr xs \<Rightarrow> False | JObj kvs \<Rightarrow> False | _ \<Rightarrow> True)"

definition is_num :: "jsval \<Rightarrow> bool" where
  "is_num v = (case v of JNum n \<Rightarrow> True | _ \<Rightarrow> False)"

definition typed_module :: "course_module \<Rightarrow> bool" where
  "typed_module m =
     (primitive (mod_id m) \<and> primitive (mod_type m) \<and> primitive (mod_contentType m) \<and>
      primitive (mod_name m) \<and> primitive (mod_duration m) \<and>
      clean (mod_status m) \<and> clean (mod_statusIcon m))"

definition typed_prerequisite :: "prerequisite \<Rightarrow> bool" where
  "typed_prerequisite p = (primitive (pre_type p) \<and> primitive (pre_name p))"

definition typed_job_aid :: "job_aid \<Rightarrow> bool" where
  "typed_job_aid a = (primitive (aid_name a) \<and> primitive (aid_description a))"

definition typed_course :: "course \<Rightarrow> bool" where
  "typed_course r =
     (primitive (courseId r) \<and> primitive (courseTitle r) \<and> primitive (courseDescription r) \<and>
      primitive (courseType r) \<and> primitive (courseDuration r) \<and> primitive (courseLevel r) \<and>
      primitive (courseSkills r) \<and> primitive (imageUrl r) \<and> primitive (loFormat r) \<and>
      is_num (ratingAvg r) \<and> is_num (enrollmentCount r) \<and>
      clean (ToString (timestamp r)) \<and>
      list_all typed_module (coreModules r) \<and>
      list_all typed_prerequisite (prerequisites r) \<and>
      list_all typed_job_aid (jobAids r))"

text \<open>Two records have the same shape when their lists have the same lengths.\<close>

definition same_shape :: "course \<Rightarrow> course \<Rightarrow> bool" where
  "same_shape r r' =
     (length (coreModules r) = length (coreModules r') \<and>
      length (prerequisites r) = length (prerequisites r') \<and>
      length (jobAids r) = length (jobAids r'))"

subsection \<open>Requests of the action\<close>


definition posts :: "request list \<Rightarrow> request list" where
  "posts trace = filter (\<lambda>r. req_method r = POST) trace"








subsection \<open>Concrete inputs\<close>

text \<open>A normalized course record, and the same record with markup in its texts.\<close>

definition course_sample :: course where
  "course_sample =
     \<lparr> courseId = JStr ''7235188'',
       instanceId = JStr ''7235188-7875849'',
       courseTitle = JStr ''Intro to Rust'',
       courseDescription = JStr ''Ownership and borrowing.'',
       courseOverview = JStr ''No overview available'',
       courseType = JStr ''Course'',
       courseDuration = JStr ''1h 30m'',
       courseLevel = JStr ''Beginner'',
       courseSkills = JStr ''Rust, Systems'',
       enrollmentCount = JNum 12,
       ratingAvg = JNum 4,
       ratingCount = JNum 3,
       imageUrl = JStr [],
       loFormat = JStr ''Self-paced'',
       coreModules =
         [\<lparr> mod_id = JStr ''r1'', mod_courseId = JStr ''course:7235188'',
             mod_name = JStr ''Module'', mod_type = JStr ''Self-paced'',
             mod_contentType = JStr ''SCORM2004'', mod_duration = JStr ''Self-paced'',
             mod_status = ''completed'', mod_isCompleted = True,
             mod_statusText = ''Last visited'', mod_statusIcon = icon_completed \<rparr>],
       prerequisites =
         [\<lparr> pre_id = JStr ''p1'', pre_name = JStr ''Basics'', pre_type = JStr ''Self-paced'' \<rparr>],
       jobAids =
         [\<lparr> aid_id = JStr ''j1'', aid_name = JStr ''Guide'',
             aid_description = JStr ''Job aid description'' \<rparr>],
       timestamp = JStr ''2025-01-01T00:00:00.000Z'' \<rparr>"

definition course_sample_markup :: course where
  \<open>course_sample_markup =
     course_sample
       \<lparr> courseTitle := JStr ''<b>Tom & Jerry</b>'',
         courseDescription := JStr ''"><script>alert(1)</script>'',
         jobAids :=
           [\<lparr> aid_id = JStr ''j1'', aid_name = JStr ''<i>Guide</i>'',
               aid_description = JStr ''a < b && c > d'' \<rparr>] \<rparr>\<close>

text \<open>A document whose average rating is a string with markup in it.\<close>

definition doc_rating :: jsval where
  \<open>doc_rating = JObj [
     (''data'', JObj [
        (''id'', JStr ''course:1''),
        (''type'', JStr ''course''),
        (''attributes'', JObj [
           (''rating'', JObj [(''averageRating'', JStr ''"><script>alert(1)</script>'')])])])]\<close>

text \<open>The record processCourseData returns for this document.\<close>

definition course_rating :: course where
  \<open>course_rating =
     \<lparr> courseId = JStr ''1'',
       instanceId = JNull,
       courseTitle = JStr ''Untitled Course'',
       courseDescription = JStr ''No description available'',
       courseOverview = JStr ''No overview available'',
       courseType = JStr ''Course'',
       courseDuration = JStr ''N/A'',
       courseLevel = JStr ''N/A'',
       courseSkills = JStr ''No skills specified'',
       enrollmentCount = JNum 0,
       ratingAvg = JStr ''"><script>alert(1)</script>'',
       ratingCount = JNum 0,
       imageUrl = JStr [],
       loFormat = JStr ''Self-paced'',
       coreModules = [],
       prerequisites = [],
       jobAids = [],
       timestamp = JStr ''2025-01-01T00:00:00.000Z'' \<rparr>\<close>











section \<open>Properties\<close>

subsection \<open>Helper lemmas\<close>

lemma js_rem_nonneg: "0 \<le> a \<Longrightarrow> 0 < b \<Longrightarrow> js_rem a b = a mod b"
  by (cases "a = 0") (simp_all add: js_rem_def)

subsection \<open>safeGet\<close>

lemma safeGet_found:
  "found v ks \<Longrightarrow> foldl (safeGet_step d) v ks = path_get v ks"
proof (induction ks arbitrary: v)
  case Nil
  show ?case by simp
next
  case (Cons k ks)
  then have "safeGet_step d v k = prop_of v k" and "optprop v k = prop_of v k"
    by (auto simp: safeGet_step_def optprop_def nullish_def)
  with Cons show ?case by simp
qed

text \<open>
  C8. safeGet is meant to return the default value as soon as a component of the path is
  missing. The reduction does not stop there: it goes on with the default value as the
  current object, so a later key is read from the default itself. With the object \<open>{}\<close>,
  the path \<open>a.0\<close> and the default \<open>'xyz'\<close>, the key \<open>a\<close> is missing and the result is
  the first character of the default, not the default.
\<close>

theorem safeGet_reads_into_default:
  "safeGet (JObj []) ''a.0'' (JStr ''xyz'') = JStr ''x''"
  by (simp add: safeGet_def safeGet_step_def array_index_def is_digit_def
        nat_of_digits_def digit_val_def)

subsection \<open>formatDuration\<close>

lemma formatDuration_helpers_num:
  "formatDuration_helpers P (JNum n) =
     (if n = 0 then ''N/A''
      else if 0 < n div 3600
           then show_int (n div 3600) @ ''h '' @ show_int (js_rem n 3600 div 60) @ ''m''
           else show_int (js_rem n 3600 div 60) @ ''m'')"
  by (simp add: formatDuration_helpers_def num_pos_def num_str_def Let_def)

lemma formatDuration_num:
  "formatDuration P (JNum n) =
     (if n = 0 then ''N/A''
      else if 0 < n div 3600
           then (if 0 < js_rem n 3600 div 60
                 then show_int (n div 3600) @ ''h '' @ show_int (js_rem n 3600 div 60) @ ''m''
                 else show_int (n div 3600) @ ''h'')
           else show_int (js_rem n 3600 div 60) @ ''m'')"
  by (simp add: formatDuration_def num_pos_def num_str_def Let_def)

text \<open>
  C9, as stated: the helpers version and the action version of formatDuration return the
  same string for every number of seconds. At 3600 seconds they do not: the helpers
  version gives \<open>1h 0m\<close>, the action version \<open>1h\<close>.
\<close>

theorem formatDuration_versions_differ:
  "formatDuration_helpers digits_platform (JNum 3600) = ''1h 0m'' \<and>
   formatDuration digits_platform (JNum 3600) = ''1h'' \<and>
   formatDuration_helpers digits_platform (JNum 3600) \<noteq> formatDuration digits_platform (JNum 3600)"
  by (simp add: formatDuration_helpers_num formatDuration_num js_rem_def show_int_def
        show_nat.simps)

text \<open>
  C9, amended: for a number of seconds \<open>n\<close> the two versions return the same string
  exactly when \<open>n\<close> is below one hour or the part of \<open>n\<close> beyond the whole hours is at
  least one minute. (On the remaining inputs, a positive number of whole hours and less
  than a minute more, the action version leaves the minutes out.)
\<close>

theorem formatDuration_versions_agree_iff:
  "formatDuration_helpers P (JNum n) = formatDuration P (JNum n)
     \<longleftrightarrow> (n < 3600 \<or> 60 \<le> n mod 3600)"
proof (cases "3600 \<le> n")
  case True
  then have rem: "js_rem n 3600 = n mod 3600"
    by (simp add: js_rem_nonneg)
  from True have hours: "0 < n div 3600"
    by (simp add: pos_imp_zdiv_pos_iff)
  have minutes: "0 < n mod 3600 div 60 \<longleftrightarrow> 60 \<le> n mod 3600"
    by (simp add: pos_imp_zdiv_pos_iff)
  from True hours show ?thesis
    by (auto simp: formatDuration_helpers_num formatDuration_num rem minutes)
next
  case False
  then have "\<not> 0 < n div 3600"
    by (simp add: pos_imp_zdiv_pos_iff)
  with False show ?thesis
    by (simp add: formatDuration_helpers_num formatDuration_num)
qed

theorem formatDuration_versions_agree_iff_witness:
  "formatDuration_helpers digits_platform (JNum 5400) = formatDuration digits_platform (JNum 5400)"
  using formatDuration_versions_agree_iff [of digits_platform 5400] by simp

subsection \<open>The OAuth helper\<close>

text \<open>
  C10. getAccessToken never hands out a stale token: it returns a token \<open>t\<close> exactly when
  \<open>t\<close> is the stored access token, an expiry is stored too (neither of them the empty
  string), and the current time is more than five minutes (300000 ms) before the stored
  expiry; in every other state the result is \<open>null\<close>.
\<close>

theorem getAccessToken_fresh:
  "getAccessToken P sessionStorage now =
     (case (sessionStorage ACCESS_TOKEN, sessionStorage TOKEN_EXPIRY) of
        (Some t, Some x) \<Rightarrow>
          (case parseInt P x of
             Some e \<Rightarrow> if t \<noteq> [] \<and> x \<noteq> [] \<and> now < e - 300000 then Some t else None
           | None \<Rightarrow> None)
      | _ \<Rightarrow> None)"
  by (simp add: getAccessToken_def isAuthenticated_def present_def Let_def
        split: option.splits)

theorem getAccessToken_fresh_witness:
  "getAccessToken digits_platform
     (Map.empty(ACCESS_TOKEN \<mapsto> ''tok'', TOKEN_EXPIRY \<mapsto> ''2000000'')) 1000 = Some ''tok'' \<and>
   getAccessToken digits_platform
     (Map.empty(ACCESS_TOKEN \<mapsto> ''tok'', TOKEN_EXPIRY \<mapsto> ''2000000'')) 1700001 = None"
  using getAccessToken_fresh [of digits_platform
          "Map.empty(ACCESS_TOKEN \<mapsto> ''tok'', TOKEN_EXPIRY \<mapsto> ''2000000'')" 1000]
        getAccessToken_fresh [of digits_platform
          "Map.empty(ACCESS_TOKEN \<mapsto> ''tok'', TOKEN_EXPIRY \<mapsto> ''2000000'')" 1700001]
  by (simp add: ACCESS_TOKEN_def TOKEN_EXPIRY_def digits_platform_def digits_number_def
        is_digit_def nat_of_digits_def digit_val_def)


subsection \<open>Reading properties, array methods\<close>

lemma find_js_Some:
  assumes "find_js p xs = Some y" and "\<And>x b. p x = Some b \<Longrightarrow> b = q x"
  shows "y = (case List.find q xs of Some x \<Rightarrow> x | None \<Rightarrow> JUndefined)"
  using assms(1)
proof (induction xs)
  case Nil
  then show ?case by simp
next
  case (Cons x xs)
  then show ?case
    using assms(2) [of x] by (auto split: option.splits bool.splits)
qed

lemma find_by_id_Some:
  assumes "find_by_id inc ref = Some y"
  shows "\<exists>items. inc = JArr items \<and> y = first_with_id items (prop_of ref ''id'')"
proof -
  from assms obtain items where inc: "inc = JArr items"
    by (auto simp: find_by_id_def as_array_def split: Option.bind_splits jsval.splits)
  let ?p = "\<lambda>item. do { a \<leftarrow> getprop item ''id''; b \<leftarrow> getprop ref ''id''; Some (strict_eq a b) }"
  from assms inc have f: "find_js ?p items = Some y"
    by (simp add: find_by_id_def as_array_def)
  have "y = (case List.find (\<lambda>x. strict_eq (prop_of x ''id'') (prop_of ref ''id'')) items of
               Some x \<Rightarrow> x | None \<Rightarrow> JUndefined)"
    by (rule find_js_Some [OF f]) (auto simp: getprop_def split: Option.bind_splits if_splits)
  with inc show ?thesis by (simp add: first_with_id_def)
qed

lemma falsy_prop_of: "\<not> truthy v \<Longrightarrow> k \<noteq> ''length'' \<Longrightarrow> prop_of v k = JUndefined"
  by (cases v) (auto simp: array_index_def)

lemma falsy_prop_of_falsy: "\<not> truthy v \<Longrightarrow> \<not> truthy (prop_of v k)"
  by (cases v) (auto simp: array_index_def)

lemma truthy_prop_ofD: "truthy (prop_of v k) \<Longrightarrow> truthy v"
  using falsy_prop_of_falsy by blast

lemma optprop_prop_of: "optprop v k = prop_of v k"
  by (cases v) (auto simp: optprop_def nullish_def)

lemma prop_of_jobAid_truthy: "strict_eq (prop_of v k) (JStr ''jobAid'') \<Longrightarrow> truthy v"
  by (cases v) (auto split: if_splits option.splits)

lemma is_job_aid_record_iff:
  "is_job_aid_record rec \<longleftrightarrow>
     truthy rec \<and> truthy (prop_of rec ''attributes'') \<and>
     strict_eq (prop_of (prop_of rec ''attributes'') ''loType'') (JStr ''jobAid'')"
proof -
  have "truthy rec \<and> truthy (prop_of rec ''attributes'')"
    if "strict_eq (prop_of (prop_of rec ''attributes'') ''loType'') (JStr ''jobAid'')"
  proof -
    from that have t: "truthy (prop_of rec ''attributes'')"
      by (rule prop_of_jobAid_truthy)
    then have "truthy rec"
      by (rule truthy_prop_ofD)
    with t show ?thesis by simp
  qed
  then show ?thesis
    by (auto simp: is_job_aid_record_def optprop_prop_of)
qed

lemma is_job_aid_Some:
  assumes "is_job_aid inc ref = Some b"
  shows "\<exists>items. inc = JArr items \<and>
           b = is_job_aid_record (first_with_id items (prop_of ref ''id''))"
proof -
  from assms obtain y where y: "find_by_id inc ref = Some y"
    and b: "b = (truthy y \<and> truthy (prop_of y ''attributes'') \<and>
                 strict_eq (prop_of (prop_of y ''attributes'') ''loType'') (JStr ''jobAid''))"
    by (auto simp: is_job_aid_def split: Option.bind_splits)
  from find_by_id_Some [OF y] b show ?thesis
    by (auto simp: is_job_aid_record_iff)
qed

lemma job_aid_entry_Some:
  assumes "job_aid_entry inc ref = Some es"
    and "is_job_aid_record (first_with_id items (prop_of ref ''id''))"
    and "inc = JArr items"
  shows "es = [job_aid_of ref (prop_of (first_with_id items (prop_of ref ''id'')) ''attributes'')]"
proof -
  let ?rec = "first_with_id items (prop_of ref ''id'')"
  let ?attrs = "prop_of ?rec ''attributes''"
  from assms(1) obtain y where y: "find_by_id inc ref = Some y"
    by (auto simp: job_aid_entry_def split: Option.bind_splits)
  from find_by_id_Some [OF y] assms(3) have yrec: "y = ?rec" by auto
  from assms(2) have t: "truthy ?rec" "truthy ?attrs"
    by (simp_all add: is_job_aid_record_iff)
  have lm: "has_localized ?attrs \<longleftrightarrow>
            truthy (prop_of ?attrs ''localizedMetadata'') \<and>
            truthy (prop_of (prop_of ?attrs ''localizedMetadata'') ''0'')"
    by (auto simp: has_localized_def optprop_prop_of dest: truthy_prop_ofD)
  have nolm: "\<not> has_localized ?attrs \<Longrightarrow>
     prop_of (prop_of (prop_of ?attrs ''localizedMetadata'') ''0'') ''description'' = JUndefined"
    by (simp add: has_localized_def optprop_prop_of falsy_prop_of)
  from assms(1) y yrec t show ?thesis
    using lm nolm
    by (auto simp: job_aid_entry_def job_aid_of_def Let_def getprop_def optprop_prop_of js_or_def
             split: Option.bind_splits if_splits)
qed

lemma filter_js_Some:
  assumes "filter_js p xs = Some ys" and "\<And>x b. p x = Some b \<Longrightarrow> b = q x"
  shows "ys = filter q xs"
  using assms(1)
proof (induction xs arbitrary: ys)
  case Nil
  then show ?case by simp
next
  case (Cons x xs)
  then show ?case
    using assms(2) [of x] by (auto split: Option.bind_splits)
qed

lemma collect_Some:
  assumes "collect f xs = Some zs" and "\<And>x e. x \<in> set xs \<Longrightarrow> f x = Some e \<Longrightarrow> e = g x"
  shows "zs = concat (map g xs)"
  using assms
proof (induction xs arbitrary: zs)
  case Nil
  then show ?case by simp
next
  case (Cons x xs)
  then show ?case
    by (auto split: Option.bind_splits)
qed

lemma extractJobAids_Some:
  assumes "extractJobAids doc = Some r"
  shows "r = jobAids_spec doc"
proof -
  from assms obtain cd inc rel where cd: "getprop doc ''data'' = Some cd"
    and inc: "getprop doc ''included'' = Some inc"
    and rel: "getprop cd ''relationships'' = Some rel"
    by (auto simp: extractJobAids_def Let_def split: Option.bind_splits)
  let ?data = "prop_of (prop_of rel ''supplementaryLOs'') ''data''"
  from cd rel have pg: "path_get doc [''data'', ''relationships'', ''supplementaryLOs'', ''data''] = ?data"
    by (auto simp: optprop_prop_of getprop_def split: if_splits)
  show ?thesis
  proof (cases "truthy rel \<and> truthy (prop_of rel ''supplementaryLOs'') \<and> truthy ?data")
    case False
    then have "\<not> truthy ?data"
      by (auto dest: truthy_prop_ofD)
    then have "\<And>refs. ?data \<noteq> JArr refs" by auto
    then have "jobAids_spec doc = []"
      by (simp add: jobAids_spec_def pg del: path_get.simps split: jsval.splits)
    moreover from assms cd inc rel False have "r = []"
      by (auto simp: extractJobAids_def Let_def)
    ultimately show ?thesis by simp
  next
    case True
    with assms cd inc rel obtain refs items where refs: "as_array ?data = Some refs"
      and fl: "filter_js (is_job_aid (js_or inc (JArr []))) refs = Some items"
      and co: "collect (job_aid_entry (js_or inc (JArr []))) items = Some r"
      by (auto simp: extractJobAids_def Let_def split: Option.bind_splits)
    from refs have data: "?data = JArr refs"
      by (auto simp: as_array_def split: jsval.splits)
    show ?thesis
    proof (cases "refs = []")
      case True
      with fl co data show ?thesis
        by (simp add: jobAids_spec_def pg del: path_get.simps)
    next
      case False
      then obtain x xs where "refs = x # xs" by (cases refs) auto
      with fl obtain b where "is_job_aid (js_or inc (JArr [])) x = Some b"
        by (auto split: Option.bind_splits)
      from is_job_aid_Some [OF this] obtain its where its: "js_or inc (JArr []) = JArr its"
        by auto
      have its': "included_items doc = its"
        using its inc by (auto simp: included_items_def js_or_def getprop_def split: if_splits jsval.splits)
      let ?q = "\<lambda>ref. is_job_aid_record (first_with_id its (prop_of ref ''id''))"
      have "items = filter ?q refs"
        by (rule filter_js_Some [OF fl]) (use its in \<open>auto dest!: is_job_aid_Some\<close>)
      moreover have "r = concat (map (\<lambda>ref. [job_aid_of ref
                         (prop_of (first_with_id its (prop_of ref ''id'')) ''attributes'')]) items)"
      proof (rule collect_Some [OF co])
        fix x e assume "x \<in> set items" "job_aid_entry (js_or inc (JArr [])) x = Some e"
        with \<open>items = filter ?q refs\<close> its
        show "e = [job_aid_of x (prop_of (first_with_id its (prop_of x ''id'')) ''attributes'')]"
          by (auto intro: job_aid_entry_Some)
      qed
      ultimately show ?thesis
        by (simp add: jobAids_spec_def pg data its' del: path_get.simps)
    qed
  qed
qed

subsection \<open>The default of safeGet on the paths the normalizer reads\<close>

















lemma processCourseData_SomeD:
  assumes "processCourseData P W doc c i = Some r"
  obtains cd skills lvl ms ps as where
    "getprop doc ''data'' = Some cd"
    "extractSkills doc = Some skills"
    "skill_level doc cd skills = Some lvl"
    "extractCoreModules P W doc = Some ms"
    "extractPrerequisites doc = Some ps"
    "extractJobAids doc = Some as"
    "courseTitle r = safeGet cd ''attributes.localizedMetadata.0.name'' (JStr ''Untitled Course'')"
    "courseDescription r =
       js_or (safeGet cd ''attributes.localizedMetadata.0.description''
                (JStr ''No description available'')) (JStr ''No description available'')"
    "courseOverview r =
       js_or (safeGet cd ''attributes.localizedMetadata.0.overview''
                (JStr ''No overview available'')) (JStr ''No overview available'')"
    "courseDuration r = JStr (formatDuration P (safeGet cd ''attributes.duration'' (JNum 0)))"
    "courseLevel r = lvl"
    "courseSkills r =
       js_or (JStr (join_str '', '' (map join_elem skills))) (JStr ''No skills specified'')"
    "enrollmentCount r = safeGet cd ''attributes.enrollmentCount'' (JNum 0)"
    "ratingAvg r = safeGet cd ''attributes.rating.averageRating'' (JNum 0)"
    "ratingCount r = safeGet cd ''attributes.rating.ratingsCount'' (JNum 0)"
    "imageUrl r = safeGet cd ''attributes.imageUrl'' (JStr [])"
    "loFormat r = safeGet cd ''attributes.loFormat'' (JStr ''Self-paced'')"
    "coreModules r = ms" "prerequisites r = ps" "jobAids r = as"
    "timestamp r = JStr (iso_now W)" "courseId r = c" "instanceId r = i"
  using assms
  by (auto simp: processCourseData_def Let_def split: Option.bind_splits)









subsection \<open>extractJobAids returns on well-formed documents\<close>

lemma find_js_total: "(\<And>x. x \<in> set xs \<Longrightarrow> \<exists>b. p x = Some b) \<Longrightarrow> \<exists>y. find_js p xs = Some y"
  by (induction xs) (fastforce split: option.splits bool.splits)+

lemma filter_js_total: "(\<And>x. x \<in> set xs \<Longrightarrow> \<exists>b. p x = Some b) \<Longrightarrow> \<exists>ys. filter_js p xs = Some ys"
  by (induction xs) (fastforce split: Option.bind_splits)+

lemma filter_js_subset: "filter_js p xs = Some ys \<Longrightarrow> set ys \<subseteq> set xs"
  by (induction xs arbitrary: ys) (auto split: Option.bind_splits if_splits)

lemma collect_total: "(\<And>x. x \<in> set xs \<Longrightarrow> \<exists>e. f x = Some e) \<Longrightarrow> \<exists>zs. collect f xs = Some zs"
  by (induction xs) (fastforce split: Option.bind_splits)+

lemma find_by_id_total:
  assumes "list_all (\<lambda>x. \<not> nullish x) items" and "\<not> nullish ref"
  shows "\<exists>y. find_by_id (JArr items) ref = Some y"
proof -
  have "\<exists>y. find_js (\<lambda>item. do {
                  a \<leftarrow> getprop item ''id'';
                  b \<leftarrow> getprop ref ''id'';
                  Some (strict_eq a b)
                }) items = Some y"
    by (rule find_js_total) (use assms in \<open>auto simp: getprop_def list_all_iff\<close>)
  then show ?thesis
    by (simp add: find_by_id_def as_array_def)
qed

lemma is_job_aid_total:
  assumes "list_all (\<lambda>x. \<not> nullish x) items" and "\<not> nullish ref"
  shows "\<exists>b. is_job_aid (JArr items) ref = Some b"
  using find_by_id_total [OF assms]
  by (auto simp: is_job_aid_def split: Option.bind_splits)

lemma job_aid_entry_total:
  assumes "list_all (\<lambda>x. \<not> nullish x) items" and "\<not> nullish ref"
  shows "\<exists>e. job_aid_entry (JArr items) ref = Some e"
  using find_by_id_total [OF assms] assms(2)
  by (auto simp: job_aid_entry_def Let_def getprop_def split: Option.bind_splits)

lemma extractJobAids_total:
  assumes "well_formed_refs doc"
  shows "\<exists>r. extractJobAids doc = Some r"
proof -
  let ?cd = "prop_of doc ''data''"
  let ?rel = "prop_of ?cd ''relationships''"
  let ?data = "prop_of (prop_of ?rel ''supplementaryLOs'') ''data''"
  let ?inc = "js_or (prop_of doc ''included'') (JArr [])"
  from assms have nn: "\<not> nullish doc" "\<not> nullish ?cd"
    by (simp_all add: well_formed_refs_def course_data_def)
  from assms obtain items where inc: "?inc = JArr items" and items: "list_all (\<lambda>x. \<not> nullish x) items"
    by (cases "truthy (prop_of doc ''included'')")
       (auto simp: well_formed_refs_def js_or_def non_nullish_array_def split: jsval.splits)
  show ?thesis
  proof (cases "truthy ?rel \<and> truthy (prop_of ?rel ''supplementaryLOs'') \<and> truthy ?data")
    case False
    with nn show ?thesis
      by (auto simp: extractJobAids_def getprop_def Let_def)
  next
    case True
    with assms obtain refs where data: "?data = JArr refs" and refs: "list_all (\<lambda>x. \<not> nullish x) refs"
      by (auto simp: well_formed_refs_def optprop_prop_of non_nullish_array_def split: jsval.splits)
    have "\<exists>sel. filter_js (is_job_aid (JArr items)) refs = Some sel"
      by (rule filter_js_total) (use refs items in \<open>auto intro!: is_job_aid_total simp: list_all_iff\<close>)
    then obtain sel where sel: "filter_js (is_job_aid (JArr items)) refs = Some sel" by auto
    from filter_js_subset [OF sel] refs have "list_all (\<lambda>x. \<not> nullish x) sel"
      by (auto simp: list_all_iff)
    then have "\<exists>r. collect (job_aid_entry (JArr items)) sel = Some r"
      using items by (intro collect_total job_aid_entry_total) (auto simp: list_all_iff)
    with True nn data inc sel show ?thesis
      by (auto simp: extractJobAids_def getprop_def Let_def as_array_def)
  qed
qed

subsection \<open>processCourseData returns on well-formed documents\<close>











subsection \<open>The clock and the random numbers\<close>

lemma core_module_static:
  "map_option (map_option static_module) (core_module P W cd inc k r) =
   map_option (map_option static_module) (core_module P W' cd inc k' r)"
  by (auto simp: core_module_def Let_def static_module_def split: Option.bind_splits)

lemma map_option_eq_cases:
  "map_option f a = map_option f b \<Longrightarrow>
     (a = None \<and> b = None) \<or> (\<exists>x y. a = Some x \<and> b = Some y \<and> f x = f y)"
  by (cases a; cases b) auto

lemma core_modules_loop_static:
  "map_option (map static_module) (core_modules_loop P W cd inc k rs) =
   map_option (map static_module) (core_modules_loop P W' cd inc k' rs)"
proof (induction rs arbitrary: k k')
  case Nil
  show ?case by simp
next
  case (Cons r rs)
  from map_option_eq_cases [OF core_module_static [of P W cd inc k r W' k']]
  consider "core_module P W cd inc k r = None" "core_module P W' cd inc k' r = None"
    | "core_module P W cd inc k r = Some None" "core_module P W' cd inc k' r = Some None"
    | md md' where "core_module P W cd inc k r = Some (Some md)"
        "core_module P W' cd inc k' r = Some (Some md')"
        "static_module md = static_module md'"
    by (auto dest!: map_option_eq_cases)
  then show ?case
  proof cases
    case 1
    then show ?thesis by simp
  next
    case 2
    with Cons.IH [of k k'] show ?thesis by simp
  next
    case 3
    from map_option_eq_cases [OF Cons.IH [of "Suc k" "Suc k'"]] 3 show ?thesis
      by auto
  qed
qed

lemma extractCoreModules_static:
  "map_option (map static_module) (extractCoreModules P W doc) =
   map_option (map static_module) (extractCoreModules P W' doc)"
  using core_modules_loop_static [of P W _ _ 0 _ W' 0]
  by (auto simp: extractCoreModules_def Let_def split: Option.bind_splits)


subsection \<open>The course data normalizer\<close>

lemma run_one_module_a:
  "map_option (map mod_status \<circ> coreModules)
     (processCourseData digits_platform world_a doc_one_module (JStr ''1'') JNull) =
   Some [''completed'']"
  by code_simp

lemma run_one_module_b:
  "map_option (map mod_status \<circ> coreModules)
     (processCourseData digits_platform world_b doc_one_module (JStr ''1'') JNull) =
   Some [''in-progress'']"
  by code_simp

subsection \<open>The page of two records that differ in timestamp and module status\<close>

lemma core_module_consistent:
  "core_module P W cd inc k r = Some (Some m) \<Longrightarrow> status_consistent m"
  by (auto simp: core_module_def Let_def status_consistent_def split: Option.bind_splits if_splits)

lemma core_modules_loop_consistent:
  "core_modules_loop P W cd inc k rs = Some ms \<Longrightarrow> list_all status_consistent ms"
proof (induction rs arbitrary: k ms)
  case Nil
  then show ?case by simp
next
  case (Cons r rs)
  then show ?case
    by (auto split: Option.bind_splits option.splits dest: core_module_consistent)
qed

lemma extractCoreModules_consistent:
  "extractCoreModules P W doc = Some ms \<Longrightarrow> list_all status_consistent ms"
  by (auto simp: extractCoreModules_def Let_def split: Option.bind_splits if_splits
        dest: core_modules_loop_consistent)

lemma consistent_module_eq:
  assumes "static_module m = static_module m'" "status_consistent m" "status_consistent m'"
    "mod_status m = mod_status m'"
  shows "m = m'"
proof -
  from assms(2,3,4) have c: "mod_isCompleted m = mod_isCompleted m'"
    by (auto simp: status_consistent_def split: if_splits)
  with assms(2,3) have "mod_statusText m = mod_statusText m'" "mod_statusIcon m = mod_statusIcon m'"
    by (simp_all add: status_consistent_def)
  with c assms(1,4) show ?thesis
    by (cases m; cases m') (simp add: static_module_def)
qed

lemma takeWhile_quote: "quote_free a \<Longrightarrow> takeWhile (\<lambda>c. c \<noteq> CHR 0x22) (a @ CHR 0x22 # z) = a"
  by (induction a) (auto simp: quote_free_def)

lemma split_quote:
  assumes "quote_free a" "quote_free b"
  shows "(a @ (CHR 0x22 # x) @ y = b @ (CHR 0x22 # x') @ y') \<longleftrightarrow> a = b \<and> x @ y = x' @ y'"
proof
  assume eq: "a @ (CHR 0x22 # x) @ y = b @ (CHR 0x22 # x') @ y'"
  then have "takeWhile (\<lambda>c. c \<noteq> CHR 0x22) (a @ CHR 0x22 # (x @ y)) =
             takeWhile (\<lambda>c. c \<noteq> CHR 0x22) (b @ CHR 0x22 # (x' @ y'))"
    by simp
  then have "a = b"
    by (simp only: takeWhile_quote [OF assms(1)] takeWhile_quote [OF assms(2)])
  with eq show "a = b \<and> x @ y = x' @ y'" by simp
next
  assume "a = b \<and> x @ y = x' @ y'"
  then show "a @ (CHR 0x22 # x) @ y = b @ (CHR 0x22 # x') @ y'" by simp
qed

lemma append_head_eq: "(c # s) @ A = (d # s') @ B \<Longrightarrow> c = d"
  by simp

lemma module_item_status:
  assumes "status_consistent m" "status_consistent m'"
    "module_item r m @ T = module_item r m' @ T'"
  shows "mod_isCompleted m = mod_isCompleted m'"
proof (rule ccontr)
  assume d: "mod_isCompleted m \<noteq> mod_isCompleted m'"
  note eq = assms(3) [unfolded module_item_def append_assoc same_append_eq]
  show False
  proof (cases "mod_isCompleted m")
    case True
    with d have F: "\<not> mod_isCompleted m'" by simp
    from True assms(1) have s: "mod_status m = ''completed''"
      by (simp add: status_consistent_def)
    from F assms(2) have s': "mod_status m' = ''in-progress''"
      by (simp add: status_consistent_def)
    from append_head_eq [OF eq [unfolded s s']] show False by simp
  next
    case False
    with d have T: "mod_isCompleted m'" by simp
    from False assms(1) have s: "mod_status m = ''in-progress''"
      by (simp add: status_consistent_def)
    from T assms(2) have s': "mod_status m' = ''completed''"
      by (simp add: status_consistent_def)
    from append_head_eq [OF eq [unfolded s s']] show False by simp
  qed
qed

lemma consistent_status_eq:
  "status_consistent m \<Longrightarrow> status_consistent m' \<Longrightarrow>
     mod_status m = mod_status m' \<longleftrightarrow> mod_isCompleted m = mod_isCompleted m'"
  by (auto simp: status_consistent_def)

lemma modules_inj:
  assumes "list_all2 (\<lambda>m m'. static_module m = static_module m' \<and> status_consistent m \<and>
                              status_consistent m') ms ms'"
  shows "concat (map (module_item r) ms) @ T = concat (map (module_item r) ms') @ T' \<Longrightarrow> ms = ms'"
  using assms
proof (induction ms ms' rule: list_all2_induct)
  case Nil
  show ?case by (rule refl)
next
  case (Cons m ms m' ms')
  from Cons.prems have eq: "module_item r m @ (concat (map (module_item r) ms) @ T) =
      module_item r m' @ (concat (map (module_item r) ms') @ T')"
    by (simp only: list.map concat.simps append_assoc)
  from Cons.hyps(1) have c: "status_consistent m" "status_consistent m'"
    and st: "static_module m = static_module m'"
    by (simp_all only: simp_thms)
  from module_item_status [OF c eq] have "mod_isCompleted m = mod_isCompleted m'" .
  with c have "mod_status m = mod_status m'"
    by (simp only: consistent_status_eq)
  from consistent_module_eq [OF st c this] have mm: "m = m'" .
  from eq [unfolded mm same_append_eq]
  have "concat (map (module_item r) ms) @ T = concat (map (module_item r) ms') @ T'" .
  from Cons.IH [OF this] mm show ?case
    by (simp only:)
qed

lemma fields_dynamic:
  "courseId (r\<lparr>timestamp := t, coreModules := ms\<rparr>) = courseId r"
  "courseTitle (r\<lparr>timestamp := t, coreModules := ms\<rparr>) = courseTitle r"
  "courseDescription (r\<lparr>timestamp := t, coreModules := ms\<rparr>) = courseDescription r"
  "courseType (r\<lparr>timestamp := t, coreModules := ms\<rparr>) = courseType r"
  "courseDuration (r\<lparr>timestamp := t, coreModules := ms\<rparr>) = courseDuration r"
  "courseLevel (r\<lparr>timestamp := t, coreModules := ms\<rparr>) = courseLevel r"
  "courseSkills (r\<lparr>timestamp := t, coreModules := ms\<rparr>) = courseSkills r"
  "enrollmentCount (r\<lparr>timestamp := t, coreModules := ms\<rparr>) = enrollmentCount r"
  "ratingAvg (r\<lparr>timestamp := t, coreModules := ms\<rparr>) = ratingAvg r"
  "imageUrl (r\<lparr>timestamp := t, coreModules := ms\<rparr>) = imageUrl r"
  "loFormat (r\<lparr>timestamp := t, coreModules := ms\<rparr>) = loFormat r"
  "prerequisites (r\<lparr>timestamp := t, coreModules := ms\<rparr>) = prerequisites r"
  "jobAids (r\<lparr>timestamp := t, coreModules := ms\<rparr>) = jobAids r"
  "coreModules (r\<lparr>timestamp := t, coreModules := ms\<rparr>) = ms"
  "timestamp (r\<lparr>timestamp := t, coreModules := ms\<rparr>) = t"
  by simp_all

lemma module_item_dynamic:
  "module_item (r\<lparr>timestamp := t, coreModules := ms\<rparr>) = module_item r"
  by (rule ext) (simp only: module_item_def fields_dynamic)

lemma templates_dynamic:
  "prerequisitesHTML (r\<lparr>timestamp := t, coreModules := ms\<rparr>) = prerequisitesHTML r"
  "jobAidsHTML (r\<lparr>timestamp := t, coreModules := ms\<rparr>) = jobAidsHTML r"
  by (simp_all only: prerequisitesHTML_def jobAidsHTML_def fields_dynamic)

lemma html_eq_dynamic:
  assumes "quote_free t" "quote_free t'"
    and "list_all2 (\<lambda>m m'. static_module m = static_module m' \<and> status_consistent m \<and>
                              status_consistent m') ms ms'"
    and eq: "generateCourseHTML (r\<lparr>timestamp := JStr t, coreModules := ms\<rparr>) =
             generateCourseHTML (r\<lparr>timestamp := JStr t', coreModules := ms'\<rparr>)"
  shows "t = t' \<and> ms = ms'"
proof -
  note e1 = eq [unfolded generateCourseHTML_def Let_def fields_dynamic templates_dynamic
      modulesHTML_def module_item_dynamic ToString.simps append_assoc same_append_eq
      split_quote [OF assms(1,2)]]
  from e1 have t: "t = t'"
    by (rule conjunct1)
  note e2 = e1 [THEN conjunct2, unfolded append_assoc same_append_eq]
  from modules_inj [OF assms(3) e2] t show ?thesis
    by (simp only: simp_thms)
qed

lemma static_part_dynamic:
  assumes "static_part r = static_part r'"
  shows "r' = r\<lparr>timestamp := timestamp r', coreModules := coreModules r'\<rparr>"
  using assms by (cases r; cases r') (simp add: static_part_def)

lemma static_modules_all2:
  assumes "map static_module ms = map static_module ms'"
    "list_all status_consistent ms" "list_all status_consistent ms'"
  shows "list_all2 (\<lambda>m m'. static_module m = static_module m' \<and> status_consistent m \<and>
                              status_consistent m') ms ms'"
proof -
  from assms(1) have len: "length ms = length ms'"
    by (rule map_eq_imp_length_eq)
  show ?thesis
  proof (rule list_all2_all_nthI [OF len])
    fix n assume n: "n < length ms"
    with assms(1) len have "static_module (ms ! n) = static_module (ms' ! n)"
      by (metis nth_map)
    moreover from n assms(2) have "status_consistent (ms ! n)"
      by (simp add: list_all_length)
    moreover from n len assms(3) have "status_consistent (ms' ! n)"
      by (simp add: list_all_length)
    ultimately show "static_module (ms ! n) = static_module (ms' ! n) \<and>
        status_consistent (ms ! n) \<and> status_consistent (ms' ! n)"
      by simp
  qed
qed

lemma consistent_modules_eq:
  assumes "list_all2 (\<lambda>m m'. static_module m = static_module m' \<and> status_consistent m \<and>
                              status_consistent m') ms ms'"
    and "map mod_status ms = map mod_status ms'"
  shows "ms = ms'"
  using assms
  by (induction ms ms' rule: list_all2_induct) (auto intro: consistent_module_eq)

lemma html_of_records:
  assumes r: "processCourseData P W doc c i = Some r"
    and r': "processCourseData P W' doc c i = Some r'"
    and q: "quote_free (iso_now W)" "quote_free (iso_now W')"
    and st: "static_part r = static_part r'"
  shows "generateCourseHTML r = generateCourseHTML r' \<longleftrightarrow>
           timestamp r = timestamp r' \<and>
           map mod_status (coreModules r) = map mod_status (coreModules r')"
proof -
  from r obtain ms where ms: "extractCoreModules P W doc = Some ms" "coreModules r = ms"
    and ts: "timestamp r = JStr (iso_now W)"
    by (rule processCourseData_SomeD)
  from r' obtain ms' where ms': "extractCoreModules P W' doc = Some ms'" "coreModules r' = ms'"
    and ts': "timestamp r' = JStr (iso_now W')"
    by (rule processCourseData_SomeD)
  from st have "map static_module ms = map static_module ms'"
    using ms(2) ms'(2) by (cases r; cases r') (simp add: static_part_def)
  from static_modules_all2 [OF this extractCoreModules_consistent [OF ms(1)]
      extractCoreModules_consistent [OF ms'(1)]]
  have all2: "list_all2 (\<lambda>m m'. static_module m = static_module m' \<and> status_consistent m \<and>
                              status_consistent m') ms ms'" .
  have rr: "r = r\<lparr>timestamp := JStr (iso_now W), coreModules := ms\<rparr>"
    using ts ms(2) by (cases r) simp
  have rr': "r' = r\<lparr>timestamp := JStr (iso_now W'), coreModules := ms'\<rparr>"
    using static_part_dynamic [OF st] ts' ms'(2) by simp
  show ?thesis
  proof
    assume "generateCourseHTML r = generateCourseHTML r'"
    then have "generateCourseHTML (r\<lparr>timestamp := JStr (iso_now W), coreModules := ms\<rparr>) =
               generateCourseHTML (r\<lparr>timestamp := JStr (iso_now W'), coreModules := ms'\<rparr>)"
      using rr rr' by simp
    from html_eq_dynamic [OF q all2 this] ts ts' ms(2) ms'(2)
    show "timestamp r = timestamp r' \<and>
           map mod_status (coreModules r) = map mod_status (coreModules r')"
      by simp
  next
    assume a: "timestamp r = timestamp r' \<and>
           map mod_status (coreModules r) = map mod_status (coreModules r')"
    with ms(2) ms'(2) have "ms = ms'"
      by (intro consistent_modules_eq [OF all2]) simp
    moreover from a ts ts' have "iso_now W = iso_now W'" by simp
    ultimately have "r = r'"
      using rr rr' by simp
    then show "generateCourseHTML r = generateCourseHTML r'" by simp
  qed
qed


text \<open>
  C3, as stated: two invocations of processCourseData on equal arguments return equal
  records. The status of a module is drawn with \<open>Math.random()\<close> and the timestamp is read
  from the clock, so they need not: on the same document, course ID and instance ID, and
  even at the same clock reading, the run whose draw is above \<open>0.5\<close> marks the module
  completed and the other one in progress.
\<close>

theorem processCourseData_depends_on_random:
  "processCourseData digits_platform world_a doc_one_module (JStr ''1'') JNull \<noteq>
   processCourseData digits_platform world_b doc_one_module (JStr ''1'') JNull"
  using run_one_module_a run_one_module_b by auto

text \<open>
  C3, amended: the outcome of processCourseData is a function of the JSON:API document,
  the course ID and the instance ID in everything but the timestamp and the four status
  fields of the modules (status, isCompleted, statusText, statusIcon). Two invocations on
  equal arguments, in any two worlds, both throw or both return, and the records they
  return are equal once these fields are blanked. The pages generateCourseHTML produces
  for two such records are identical exactly when the timestamps and the statuses of the
  modules are equal (for timestamps without a double quote, as those of the clock are).
\<close>

theorem processCourseData_static:
  "map_option static_part (processCourseData P W doc c i) =
   map_option static_part (processCourseData P W' doc c i) \<and>
   (\<forall>r r'. processCourseData P W doc c i = Some r \<and> processCourseData P W' doc c i = Some r' \<and>
            quote_free (iso_now W) \<and> quote_free (iso_now W') \<longrightarrow>
      (generateCourseHTML r = generateCourseHTML r' \<longleftrightarrow>
         timestamp r = timestamp r' \<and>
         map mod_status (coreModules r) = map mod_status (coreModules r')))"
proof -
  have s: "map_option static_part (processCourseData P W doc c i) =
      map_option static_part (processCourseData P W' doc c i)"
    using map_option_eq_cases [OF extractCoreModules_static [of P W doc W']]
    by (auto simp: processCourseData_def Let_def static_part_def split: Option.bind_splits)
  have "generateCourseHTML r = generateCourseHTML r' \<longleftrightarrow>
         timestamp r = timestamp r' \<and>
         map mod_status (coreModules r) = map mod_status (coreModules r')"
    if "processCourseData P W doc c i = Some r" "processCourseData P W' doc c i = Some r'"
      "quote_free (iso_now W)" "quote_free (iso_now W')" for r r'
  proof -
    from s that(1,2) have "static_part r = static_part r'" by simp
    from html_of_records [OF that this] show ?thesis .
  qed
  with s show ?thesis by blast
qed

theorem processCourseData_static_witness:
  "map_option static_part
     (processCourseData digits_platform world_a doc_one_module (JStr ''1'') JNull) =
   map_option static_part
     (processCourseData digits_platform world_b doc_one_module (JStr ''1'') JNull) \<and>
   processCourseData digits_platform world_a doc_one_module (JStr ''1'') JNull \<noteq> None \<and>
   quote_free (iso_now world_a) \<and> quote_free (iso_now world_b) \<and>
   map_option generateCourseHTML
     (processCourseData digits_platform world_a doc_one_module (JStr ''1'') JNull) \<noteq>
   map_option generateCourseHTML
     (processCourseData digits_platform world_b doc_one_module (JStr ''1'') JNull)"
proof -
  note inst = processCourseData_static [of digits_platform world_a doc_one_module "JStr ''1''" JNull world_b]
  from run_one_module_a obtain r where
    r: "processCourseData digits_platform world_a doc_one_module (JStr ''1'') JNull = Some r"
    and a: "map mod_status (coreModules r) = [''completed'']"
    by auto
  from run_one_module_b obtain r' where
    r': "processCourseData digits_platform world_b doc_one_module (JStr ''1'') JNull = Some r'"
    and b: "map mod_status (coreModules r') = [''in-progress'']"
    by auto
  have q: "quote_free (iso_now world_a)" "quote_free (iso_now world_b)"
    by code_simp+
  from inst [THEN conjunct2, THEN spec, THEN spec, THEN mp, of r r'] r r' q
  have "generateCourseHTML r = generateCourseHTML r' \<longleftrightarrow>
         timestamp r = timestamp r' \<and>
         map mod_status (coreModules r) = map mod_status (coreModules r')"
    by (simp only: simp_thms)
  with a b have "generateCourseHTML r \<noteq> generateCourseHTML r'"
    by simp
  with inst [THEN conjunct1] r r' q show ?thesis
    by simp
qed






lemma run_job_aids:
  "extractJobAids doc_job_aids =
     Some [\<lparr> aid_id = JStr ''j1'', aid_name = JStr ''Guide'',
              aid_description = JStr ''Job aid description'' \<rparr>,
           \<lparr> aid_id = JStr ''j3'', aid_name = JStr ''Job Aid'',
              aid_description = JStr ''Job aid description'' \<rparr>]"
  by code_simp

text \<open>
  C7, as stated: the name of a job aid is \<open>'Job Aid'\<close> when localized metadata is missing.
  The included record \<open>j1\<close> of this document has no localized metadata, and its entry is
  named \<open>'Guide'\<close>, after \<open>attributes.name\<close>.
\<close>

theorem extractJobAids_name_from_attributes:
  "missing (first_with_id (included_items doc_job_aids) (JStr ''j1''))
     [''attributes'', ''localizedMetadata''] \<and>
   map_option (map aid_name) (extractJobAids doc_job_aids) = Some [JStr ''Guide'', JStr ''Job Aid''] \<and>
   map_option (map aid_id) (extractJobAids doc_job_aids) = Some [JStr ''j1'', JStr ''j3'']"
proof -
  have "missing (first_with_id (included_items doc_job_aids) (JStr ''j1''))
          [''attributes'', ''localizedMetadata'']"
    by code_simp
  with run_job_aids show ?thesis by simp
qed

text \<open>
  C7, amended: extractJobAids returns exactly the supplementary learning objects of the
  document whose matching included record has loType \<open>'jobAid'\<close>: one entry per such
  reference, in document order, and none for a reference of another loType or with no
  included record. The name of an entry is the name of the first localized metadata;
  when localized metadata is missing it is \<open>attributes.name\<close>, and \<open>'Job Aid'\<close> when that is
  missing too. The description defaults to \<open>'Job aid description'\<close>. On a well-formed
  document the function returns.
\<close>


theorem extractJobAids_spec:
  "(well_formed_refs doc \<longrightarrow> (\<exists>r. extractJobAids doc = Some r)) \<and>
   (\<forall>r. extractJobAids doc = Some r \<longrightarrow> r = jobAids_spec doc)"
  using extractJobAids_total extractJobAids_Some by blast

theorem extractJobAids_spec_witness:
  "well_formed_refs doc_job_aids \<and>
   extractJobAids doc_job_aids = Some (jobAids_spec doc_job_aids) \<and>
   map aid_id (jobAids_spec doc_job_aids) = [JStr ''j1'', JStr ''j3'']"
proof -
  have wf: "well_formed_refs doc_job_aids"
    by code_simp
  have run: "extractJobAids doc_job_aids =
         Some [\<lparr> aid_id = JStr ''j1'', aid_name = JStr ''Guide'',
                  aid_description = JStr ''Job aid description'' \<rparr>,
               \<lparr> aid_id = JStr ''j3'', aid_name = JStr ''Job Aid'',
                  aid_description = JStr ''Job aid description'' \<rparr>]"
    by code_simp
  from extractJobAids_spec [of doc_job_aids] run
  have "jobAids_spec doc_job_aids =
          [\<lparr> aid_id = JStr ''j1'', aid_name = JStr ''Guide'',
                  aid_description = JStr ''Job aid description'' \<rparr>,
               \<lparr> aid_id = JStr ''j3'', aid_name = JStr ''Job Aid'',
                  aid_description = JStr ''Job aid description'' \<rparr>]"
    by simp
  with wf run show ?thesis
    by simp
qed


subsection \<open>Escaping and the markup of the page\<close>









lemma markup_append [simp]: "markup (a @ b) = markup a @ markup b"
  by (simp add: markup_def)

lemma markup_Nil [simp]: "markup [] = []"
  by (simp add: markup_def)

lemma markup_Cons:
  "markup (c # s) = (if c \<in> set markup_chars then c # markup s else markup s)"
  by (simp add: markup_def)

lemma markup_clean: "clean s \<Longrightarrow> markup s = []"
  by (auto simp: markup_def clean_def special_chars_def markup_chars_def list_all_iff filter_empty_conv)

lemma digit_nth: "k < 10 \<Longrightarrow> ''0123456789'' ! k \<in> set ''0123456789''"
proof -
  assume "k < 10"
  then have "k < length ''0123456789''" by simp
  then show ?thesis by (rule nth_mem)
qed

lemma set_snoc_subset: "set a \<subseteq> A \<Longrightarrow> x \<in> A \<Longrightarrow> set (a @ [x]) \<subseteq> A"
  by simp

lemma show_nat_digits: "set (show_nat n) \<subseteq> set ''0123456789''"
proof (induction n rule: show_nat.induct)
  case (1 n)
  show ?case
  proof (cases "n < 10")
    case True
    then have eq: "show_nat n = [] @ [''0123456789'' ! n]"
      by (subst show_nat.simps) simp
    show ?thesis
      unfolding eq by (rule set_snoc_subset) (simp, rule digit_nth [OF True])
  next
    case False
    then have eq: "show_nat n = show_nat (n div 10) @ [''0123456789'' ! (n mod 10)]"
      by (subst show_nat.simps) simp
    have m: "n mod 10 < 10" by simp
    show ?thesis
      unfolding eq by (rule set_snoc_subset) (rule 1 [OF False], rule digit_nth [OF m])
  qed
qed

lemma digits_clean: "c \<in> set ''0123456789'' \<Longrightarrow> c \<notin> set special_chars"
  by (auto simp: special_chars_def)

lemma clean_show_nat: "clean (show_nat n)"
proof -
  have "c \<notin> set special_chars" if "c \<in> set (show_nat n)" for c
  proof -
    from that show_nat_digits [of n] have "c \<in> set ''0123456789''"
      by (rule subsetD [rotated])
    then show ?thesis by (rule digits_clean)
  qed
  then show ?thesis
    by (simp add: clean_def list_all_iff)
qed

lemma clean_Cons: "clean (c # s) \<longleftrightarrow> c \<notin> set special_chars \<and> clean s"
  by (simp add: clean_def)

lemma clean_show_int: "clean (show_int i)"
  by (simp add: show_int_def clean_Cons clean_show_nat) (simp add: special_chars_def)

lemma markup_escape_char: "markup (escape_char c) = []"
  by (simp add: escape_char_def markup_chars_def markup_Cons)

lemma markup_escaped_string: "markup (concat (map escape_char s)) = []"
  by (induction s) (simp_all add: markup_escape_char)

lemma markup_escaped: "primitive v \<Longrightarrow> markup (ToString (escapeHtml v)) = []"
  by (cases v)
     (simp_all add: primitive_def escapeHtml_def markup_escaped_string markup_clean clean_show_int
        markup_chars_def markup_Cons)

lemma markup_num: "is_num v \<Longrightarrow> markup (ToString v) = []"
  by (cases v) (simp_all add: is_num_def markup_clean clean_show_int)

lemma markup_concat_map:
  assumes "length xs = length ys"
    and "\<And>x y. x \<in> set xs \<Longrightarrow> y \<in> set ys \<Longrightarrow> markup (f x) = markup (g y)"
  shows "markup (concat (map f xs)) = markup (concat (map g ys))"
  using assms
proof (induction xs ys rule: list_induct2)
  case Nil
  show ?case by simp
next
  case (Cons x xs y ys)
  then show ?case by simp
qed

lemma markup_module_item:
  assumes "typed_module m" "typed_module m'" "primitive (courseId r)" "primitive (courseId r')"
  shows "markup (module_item r m) = markup (module_item r' m')"
proof -
  have fields: "markup (ToString (escapeHtml (mod_id x))) = []"
    "markup (ToString (escapeHtml (mod_type x))) = []"
    "markup (ToString (escapeHtml (mod_contentType x))) = []"
    "markup (ToString (escapeHtml (mod_name x))) = []"
    "markup (ToString (escapeHtml (mod_duration x))) = []"
    "markup (ToString (escapeHtml (JStr (mod_statusText x)))) = []"
    "markup (mod_status x) = []" "markup (mod_statusIcon x) = []"
    if "typed_module x" for x
    using that by (simp_all add: typed_module_def markup_escaped markup_clean primitive_def)
  note f = fields [OF assms(1)] fields [OF assms(2)]
    markup_escaped [OF assms(3)] markup_escaped [OF assms(4)]
  show ?thesis
    unfolding module_item_def markup_append by (simp only: f)
qed

lemma markup_prerequisite_item:
  assumes "typed_prerequisite p" "typed_prerequisite p'"
  shows "markup (prerequisite_item p) = markup (prerequisite_item p')"
proof -
  have fields: "markup (ToString (escapeHtml (pre_type x))) = []"
    "markup (ToString (escapeHtml (pre_name x))) = []"
    if "typed_prerequisite x" for x
    using that by (simp_all add: typed_prerequisite_def markup_escaped)
  note f = fields [OF assms(1)] fields [OF assms(2)]
  show ?thesis
    unfolding prerequisite_item_def markup_append by (simp only: f)
qed

lemma markup_job_aid_item:
  assumes "typed_job_aid a" "typed_job_aid a'"
  shows "markup (job_aid_item a) = markup (job_aid_item a')"
proof -
  have fields: "markup (ToString (escapeHtml (aid_name x))) = []"
    "markup (ToString (escapeHtml (aid_description x))) = []"
    if "typed_job_aid x" for x
    using that by (simp_all add: typed_job_aid_def markup_escaped)
  note f = fields [OF assms(1)] fields [OF assms(2)]
  show ?thesis
    unfolding job_aid_item_def markup_append by (simp only: f)
qed

lemma markup_prerequisitesHTML:
  assumes "list_all typed_prerequisite (prerequisites r)"
    "list_all typed_prerequisite (prerequisites r')"
    "length (prerequisites r) = length (prerequisites r')"
  shows "markup (prerequisitesHTML r) = markup (prerequisitesHTML r')"
proof -
  have "markup (concat (map prerequisite_item (prerequisites r))) =
        markup (concat (map prerequisite_item (prerequisites r')))"
    by (rule markup_concat_map [OF assms(3)])
       (use assms(1,2) in \<open>auto simp: list_all_iff intro: markup_prerequisite_item\<close>)
  then have cc: "markup (concat (map prerequisite_item (prerequisites r))) = markup (concat (map prerequisite_item (prerequisites r')))" .
  show ?thesis
  proof (cases "0 < length (prerequisites r')")
    case True
    with assms(3) have "0 < length (prerequisites r)" by simp
    with True show ?thesis
      unfolding prerequisitesHTML_def by (simp only: if_True markup_append cc)
  next
    case False
    with assms(3) have "\<not> 0 < length (prerequisites r)" by simp
    with False show ?thesis
      unfolding prerequisitesHTML_def by (simp only: if_False)
  qed
qed

lemma markup_jobAidsHTML:
  assumes "list_all typed_job_aid (jobAids r)" "list_all typed_job_aid (jobAids r')"
    "length (jobAids r) = length (jobAids r')"
  shows "markup (jobAidsHTML r) = markup (jobAidsHTML r')"
proof -
  have "markup (concat (map job_aid_item (jobAids r))) =
        markup (concat (map job_aid_item (jobAids r')))"
    by (rule markup_concat_map [OF assms(3)])
       (use assms(1,2) in \<open>auto simp: list_all_iff intro: markup_job_aid_item\<close>)
  then have cc: "markup (concat (map job_aid_item (jobAids r))) = markup (concat (map job_aid_item (jobAids r')))" .
  show ?thesis
  proof (cases "0 < length (jobAids r')")
    case True
    with assms(3) have "0 < length (jobAids r)" by simp
    with True show ?thesis
      unfolding jobAidsHTML_def by (simp only: if_True markup_append cc)
  next
    case False
    with assms(3) have "\<not> 0 < length (jobAids r)" by simp
    with False show ?thesis
      unfolding jobAidsHTML_def by (simp only: if_False)
  qed
qed

lemma markup_modulesHTML:
  assumes "list_all typed_module (coreModules r)" "list_all typed_module (coreModules r')"
    "length (coreModules r) = length (coreModules r')"
    "primitive (courseId r)" "primitive (courseId r')"
    "primitive (courseDuration r)" "primitive (courseDuration r')"
  shows "markup (modulesHTML r) = markup (modulesHTML r')"
proof -
  have "markup (concat (map (module_item r) (coreModules r))) =
        markup (concat (map (module_item r') (coreModules r')))"
    by (rule markup_concat_map [OF assms(3)])
       (use assms(1,2,4,5) in \<open>auto simp: list_all_iff intro: markup_module_item\<close>)
  then show ?thesis
    unfolding modulesHTML_def markup_append
    by (simp only: markup_escaped [OF assms(6)] markup_escaped [OF assms(7)])
qed

lemma primitive_js_or: "primitive a \<Longrightarrow> primitive b \<Longrightarrow> primitive (js_or a b)"
  by (simp add: js_or_def)

lemma markup_generateCourseHTML:
  assumes "typed_course r" "typed_course r'" "same_shape r r'"
  shows "markup (generateCourseHTML r) = markup (generateCourseHTML r')"
proof -
  have p: "markup (prerequisitesHTML r) = markup (prerequisitesHTML r')"
    using assms by (intro markup_prerequisitesHTML) (simp_all add: typed_course_def same_shape_def)
  have m: "markup (modulesHTML r) = markup (modulesHTML r')"
    using assms by (intro markup_modulesHTML) (simp_all add: typed_course_def same_shape_def)
  have j: "markup (jobAidsHTML r) = markup (jobAidsHTML r')"
    using assms by (intro markup_jobAidsHTML) (simp_all add: typed_course_def same_shape_def)
  have img: "markup (ToString (escapeHtml (js_or (imageUrl x)
        (JStr ''https://images.unsplash.com/photo-1516321318423-f06f85e504b3?w=1200&q=80'')))) = []"
    if "primitive (imageUrl x)" for x
    by (intro markup_escaped primitive_js_or that) (simp add: primitive_def)
  have fields: "markup (ToString (escapeHtml (courseId x))) = []"
    "markup (ToString (escapeHtml (courseTitle x))) = []"
    "markup (ToString (escapeHtml (courseDescription x))) = []"
    "markup (ToString (escapeHtml (courseType x))) = []"
    "markup (ToString (escapeHtml (courseDuration x))) = []"
    "markup (ToString (escapeHtml (courseLevel x))) = []"
    "markup (ToString (escapeHtml (courseSkills x))) = []"
    "markup (ToString (escapeHtml (loFormat x))) = []"
    "markup (ToString (escapeHtml (js_or (imageUrl x)
        (JStr ''https://images.unsplash.com/photo-1516321318423-f06f85e504b3?w=1200&q=80'')))) = []"
    "markup (ToString (ratingAvg x)) = []"
    "markup (ToString (enrollmentCount x)) = []"
    "markup (ToString (timestamp x)) = []"
    if "typed_course x" for x
    using that
    by (simp_all add: typed_course_def markup_escaped markup_num markup_clean img)
  have counts: "markup (show_nat k) = []" for k
    by (simp add: markup_clean clean_show_nat)
  note f = fields [OF assms(1)] fields [OF assms(2)]
  show ?thesis
    unfolding generateCourseHTML_def Let_def markup_append
    by (simp only: f counts p m j)
qed

lemma take_append_keep:
  assumes "take (length e) a = e"
  shows "take (length e) (a @ b) = e"
proof -
  from assms have "length (take (length e) a) = length e"
    by simp
  then have "length e \<le> length a"
    by (simp add: min_def split: if_splits)
  with assms show ?thesis by simp
qed

lemma amp_ok_append: "amp_ok a \<Longrightarrow> amp_ok b \<Longrightarrow> amp_ok (a @ b)"
proof (induction a)
  case Nil
  then show ?case by simp
next
  case (Cons c a)
  from Cons.prems(1) have ent: "c = CHR ''&'' \<longrightarrow> (\<exists>e \<in> set entities. take (length e) a = e)"
    and a: "amp_ok a"
    by simp_all
  from ent have "c = CHR ''&'' \<longrightarrow> (\<exists>e \<in> set entities. take (length e) (a @ b) = e)"
    using take_append_keep by blast
  moreover from Cons.IH [OF a Cons.prems(2)] have "amp_ok (a @ b)" .
  ultimately show ?case by simp
qed

lemma amp_ok_no_amp: "CHR ''&'' \<notin> set s \<Longrightarrow> amp_ok s"
  by (induction s) auto

lemma amp_ok_clean: "clean s \<Longrightarrow> amp_ok s"
  by (rule amp_ok_no_amp) (auto simp: clean_def special_chars_def list_all_iff)

lemma amp_ok_escape_char: "amp_ok (escape_char c)"
  by (simp add: escape_char_def entities_def)

lemma amp_ok_escaped_string: "amp_ok (concat (map escape_char s))"
  by (induction s) (simp_all add: amp_ok_append amp_ok_escape_char)

lemma amp_ok_escaped: "primitive v \<Longrightarrow> amp_ok (ToString (escapeHtml v))"
  by (cases v)
     (simp_all add: primitive_def escapeHtml_def amp_ok_escaped_string amp_ok_clean clean_show_int)

lemma amp_ok_num: "is_num v \<Longrightarrow> amp_ok (ToString v)"
  by (cases v) (simp_all add: is_num_def amp_ok_clean clean_show_int)

lemma amp_ok_concat_map: "(\<And>x. x \<in> set xs \<Longrightarrow> amp_ok (f x)) \<Longrightarrow> amp_ok (concat (map f xs))"
  by (induction xs) (simp_all add: amp_ok_append)

lemma amp_ok_nl: "amp_ok nl"
  by (simp add: nl_def)

lemma amp_ok_icons: "amp_ok icon_star" "amp_ok icon_timer" "amp_ok icon_tools"
  by (simp_all add: icon_star_def icon_timer_def icon_tools_def)

lemma amp_ok_module_item:
  assumes "typed_module m" "primitive (courseId r)"
  shows "amp_ok (module_item r m)"
  unfolding module_item_def
  by (intro amp_ok_append)
     (use assms in \<open>simp_all add: typed_module_def amp_ok_escaped amp_ok_clean amp_ok_nl
        amp_ok_icons primitive_def\<close>)

lemma amp_ok_prerequisite_item:
  assumes "typed_prerequisite p"
  shows "amp_ok (prerequisite_item p)"
  unfolding prerequisite_item_def
  by (intro amp_ok_append)
     (use assms in \<open>simp_all add: typed_prerequisite_def amp_ok_escaped amp_ok_nl\<close>)

lemma amp_ok_job_aid_item:
  assumes "typed_job_aid a"
  shows "amp_ok (job_aid_item a)"
  unfolding job_aid_item_def
  by (intro amp_ok_append)
     (use assms in \<open>simp_all add: typed_job_aid_def amp_ok_escaped amp_ok_nl\<close>)

lemma amp_ok_prerequisitesHTML:
  assumes "list_all typed_prerequisite (prerequisites r)"
  shows "amp_ok (prerequisitesHTML r)"
proof -
  have "amp_ok (concat (map prerequisite_item (prerequisites r)))"
    by (rule amp_ok_concat_map) (use assms in \<open>auto simp: list_all_iff intro: amp_ok_prerequisite_item\<close>)
  then show ?thesis
    unfolding prerequisitesHTML_def
    by (cases "0 < length (prerequisites r)")
       (simp_all only: if_True if_False amp_ok.simps, intro amp_ok_append, simp_all add: amp_ok_nl)
qed

lemma amp_ok_jobAidsHTML:
  assumes "list_all typed_job_aid (jobAids r)"
  shows "amp_ok (jobAidsHTML r)"
proof -
  have "amp_ok (concat (map job_aid_item (jobAids r)))"
    by (rule amp_ok_concat_map) (use assms in \<open>auto simp: list_all_iff intro: amp_ok_job_aid_item\<close>)
  then show ?thesis
    unfolding jobAidsHTML_def
    by (cases "0 < length (jobAids r)")
       (simp_all only: if_True if_False amp_ok.simps, intro amp_ok_append,
        simp_all add: amp_ok_nl amp_ok_icons)
qed

lemma amp_ok_modulesHTML:
  assumes "list_all typed_module (coreModules r)" "primitive (courseId r)"
    "primitive (courseDuration r)"
  shows "amp_ok (modulesHTML r)"
proof -
  have "amp_ok (concat (map (module_item r) (coreModules r)))"
    by (rule amp_ok_concat_map) (use assms in \<open>auto simp: list_all_iff intro: amp_ok_module_item\<close>)
  then show ?thesis
    unfolding modulesHTML_def
    by (intro amp_ok_append)
       (use assms(3) in \<open>simp_all add: amp_ok_nl amp_ok_icons amp_ok_escaped\<close>)
qed

lemma amp_ok_generateCourseHTML:
  assumes "typed_course r"
  shows "amp_ok (generateCourseHTML r)"
proof -
  have img: "amp_ok (ToString (escapeHtml (js_or (imageUrl r)
        (JStr ''https://images.unsplash.com/photo-1516321318423-f06f85e504b3?w=1200&q=80''))))"
    using assms
    by (intro amp_ok_escaped primitive_js_or) (simp_all add: typed_course_def primitive_def)
  have p: "amp_ok (prerequisitesHTML r)"
    using assms by (intro amp_ok_prerequisitesHTML) (simp add: typed_course_def)
  have m: "amp_ok (modulesHTML r)"
    using assms by (intro amp_ok_modulesHTML) (simp_all add: typed_course_def)
  have j: "amp_ok (jobAidsHTML r)"
    using assms by (intro amp_ok_jobAidsHTML) (simp add: typed_course_def)
  show ?thesis
    unfolding generateCourseHTML_def Let_def
    by (intro amp_ok_append)
       (use assms in \<open>simp_all add: typed_course_def amp_ok_escaped amp_ok_num amp_ok_clean
          clean_show_nat amp_ok_nl img p m j\<close>)
qed

subsection \<open>Reading the meta tags back\<close>







lemma run_rating:
  "processCourseData digits_platform world_a doc_rating (JStr ''1'') JNull = Some course_rating"
  by code_simp

lemma fields_rating:
  "courseId (r\<lparr>ratingAvg := v\<rparr>) = courseId r"
  "courseTitle (r\<lparr>ratingAvg := v\<rparr>) = courseTitle r"
  "courseDescription (r\<lparr>ratingAvg := v\<rparr>) = courseDescription r"
  "courseType (r\<lparr>ratingAvg := v\<rparr>) = courseType r"
  "courseDuration (r\<lparr>ratingAvg := v\<rparr>) = courseDuration r"
  "courseLevel (r\<lparr>ratingAvg := v\<rparr>) = courseLevel r"
  "courseSkills (r\<lparr>ratingAvg := v\<rparr>) = courseSkills r"
  "enrollmentCount (r\<lparr>ratingAvg := v\<rparr>) = enrollmentCount r"
  "imageUrl (r\<lparr>ratingAvg := v\<rparr>) = imageUrl r"
  "loFormat (r\<lparr>ratingAvg := v\<rparr>) = loFormat r"
  "coreModules (r\<lparr>ratingAvg := v\<rparr>) = coreModules r"
  "prerequisites (r\<lparr>ratingAvg := v\<rparr>) = prerequisites r"
  "jobAids (r\<lparr>ratingAvg := v\<rparr>) = jobAids r"
  "timestamp (r\<lparr>ratingAvg := v\<rparr>) = timestamp r"
  "ratingAvg (r\<lparr>ratingAvg := v\<rparr>) = v"
  by simp_all

lemma module_item_rating: "module_item (r\<lparr>ratingAvg := v\<rparr>) = module_item r"
  by (rule ext) (simp only: module_item_def fields_rating)

lemma templates_rating:
  "prerequisitesHTML (r\<lparr>ratingAvg := v\<rparr>) = prerequisitesHTML r"
  "modulesHTML (r\<lparr>ratingAvg := v\<rparr>) = modulesHTML r"
  "jobAidsHTML (r\<lparr>ratingAvg := v\<rparr>) = jobAidsHTML r"
  by (simp_all only: prerequisitesHTML_def modulesHTML_def jobAidsHTML_def module_item_rating
        fields_rating)

lemma markup_rating:
  "markup (generateCourseHTML (r\<lparr>ratingAvg := v\<rparr>)) =
   markup (generateCourseHTML (r\<lparr>ratingAvg := v'\<rparr>))
     \<longleftrightarrow> markup (ToString v) = markup (ToString v')"
  unfolding generateCourseHTML_def Let_def markup_append templates_rating fields_rating
  by (simp only: same_append_eq append_same_eq)

text \<open>
  C1. Every text value interpolated into the page passes through escapeHtml, the content of
  the course-rating meta tag included. The code misses this for the rating, which the
  template interpolates as it is (\<open>content="${courseData.ratingAvg}"\<close>), while the meta tags
  around it are escaped. For the document whose average rating is the string
  \<open>"><script>alert(1)</script>\<close>, processCourseData hands the string on in \<open>ratingAvg\<close>, and
  the markup characters of the generated page differ from those of the page with the
  rating 0: the quote and the angle brackets of the field stand unescaped in the output.
\<close>

theorem generateCourseHTML_rating_unescaped:
  "processCourseData digits_platform world_a doc_rating (JStr ''1'') JNull = Some course_rating \<and>
   markup (generateCourseHTML course_rating) \<noteq>
   markup (generateCourseHTML (course_rating\<lparr>ratingAvg := JNum 0\<rparr>))"
proof -
  have "course_rating = course_rating\<lparr>ratingAvg := JStr ''\"><script>alert(1)</script>''\<rparr>"
    by (simp add: course_rating_def)
  then have "markup (generateCourseHTML course_rating) =
        markup (generateCourseHTML (course_rating\<lparr>ratingAvg := JNum 0\<rparr>))
     \<longleftrightarrow> markup (ToString (JStr ''\"><script>alert(1)</script>'')) = markup (ToString (JNum 0))"
    using markup_rating [where r = course_rating and v = "JStr ''\"><script>alert(1)</script>''"
        and v' = "JNum 0"]
    by simp
  moreover have "markup (ToString (JStr ''\"><script>alert(1)</script>'')) \<noteq> markup (ToString (JNum 0))"
    by (simp add: markup_Cons markup_chars_def markup_clean clean_show_int)
  ultimately show ?thesis
    using run_rating by simp
qed

text \<open>
  The fields that generateCourseHTML does pass through escapeHtml are escaped when they are
  strings, and handed on as they are when they are not. For records whose escaped fields
  are primitive values, whose rating and enrollment count are numbers and whose timestamp,
  module status and module icon (all interpolated as they are) have none of the five
  characters, the markup characters of the page are the same for any two records of the
  same shape, and every \<open>&\<close> of the page starts a character reference.
\<close>

lemma escaped_fields_keep_markup:
  assumes "typed_course r" "typed_course r'" "same_shape r r'"
  shows "markup (generateCourseHTML r) = markup (generateCourseHTML r') \<and>
         amp_ok (generateCourseHTML r)"
  using markup_generateCourseHTML [OF assms] amp_ok_generateCourseHTML [OF assms(1)] by simp

lemma escaped_fields_keep_markup_sample:
  "typed_course course_sample_markup \<and> typed_course course_sample \<and>
   same_shape course_sample_markup course_sample \<and>
   markup (generateCourseHTML course_sample_markup) = markup (generateCourseHTML course_sample) \<and>
   amp_ok (generateCourseHTML course_sample_markup)"
proof -
  have a: "typed_course course_sample"
    by code_simp
  have b: "typed_course course_sample_markup"
    by code_simp
  have c: "same_shape course_sample_markup course_sample"
    by code_simp
  from escaped_fields_keep_markup [OF b a c] a b c show ?thesis
    by simp
qed


subsection \<open>The action\<close>






















lemma posts_append [simp]: "posts (a @ b) = posts a @ posts b"
  by (simp add: posts_def)


























end
